theory Spec2Isabelle
  imports Main "HOL-Library.Monad_Syntax"
begin

section \<open>Python strings\<close>

text \<open>
  A Python \<open>str\<close> is modelled as a \<open>string\<close> whose characters are the code points
  0..255 (Latin-1).  On that range the classification and case tables below are the ones
  of \<open>str.isspace\<close>, \<open>str.isalnum\<close>, \<open>str.lower\<close> and \<open>str.upper\<close>.
  \<open>str.upper\<close> leaves the range for three characters (U+00B5, U+00DF, U+00FF), so
  its result is a list of code points.
\<close>

definition py_isspace :: "char \<Rightarrow> bool" where
  "py_isspace c =
     (let n = (of_char c :: nat)
      in (9 \<le> n \<and> n \<le> 13) \<or> (28 \<le> n \<and> n \<le> 32) \<or> n = 133 \<or> n = 160)"

definition py_isalnum :: "char \<Rightarrow> bool" where
  "py_isalnum c =
     (let n = (of_char c :: nat)
      in (48 \<le> n \<and> n \<le> 57) \<or> (65 \<le> n \<and> n \<le> 90) \<or> (97 \<le> n \<and> n \<le> 122)
         \<or> n = 170 \<or> n = 178 \<or> n = 179 \<or> n = 181 \<or> n = 185 \<or> n = 186
         \<or> (188 \<le> n \<and> n \<le> 190) \<or> (192 \<le> n \<and> n \<le> 214)
         \<or> (216 \<le> n \<and> n \<le> 246) \<or> (248 \<le> n \<and> n \<le> 255))"

definition lower_char :: "char \<Rightarrow> char" where
  "lower_char c =
     (let n = (of_char c :: nat)
      in if (65 \<le> n \<and> n \<le> 90) \<or> (192 \<le> n \<and> n \<le> 214) \<or> (216 \<le> n \<and> n \<le> 222)
         then char_of (n + 32) else c)"

definition upper_char :: "char \<Rightarrow> nat list" where
  "upper_char c =
     (let n = (of_char c :: nat)
      in if n = 181 then [924]
         else if n = 223 then [83, 83]
         else if n = 255 then [376]
         else if (97 \<le> n \<and> n \<le> 122) \<or> (224 \<le> n \<and> n \<le> 246) \<or> (248 \<le> n \<and> n \<le> 254)
         then [n - 32] else [n])"

definition py_lower :: "string \<Rightarrow> string" where
  "py_lower s = map lower_char s"

definition py_upper :: "string \<Rightarrow> nat list" where
  "py_upper s = concat (map upper_char s)"

definition py_strip :: "string \<Rightarrow> string" where
  "py_strip s = rev (dropWhile py_isspace (rev (dropWhile py_isspace s)))"

text \<open>\<open>s.replace(a, b)\<close> for one-character \<open>a\<close> and \<open>b\<close>.\<close>

definition py_replace :: "'a \<Rightarrow> 'a \<Rightarrow> 'a list \<Rightarrow> 'a list" where
  "py_replace a b s = map (\<lambda>c. if c = a then b else c) s"

text \<open>
  \<open>int(s)\<close> on a \<open>str\<close>: surrounding whitespace is dropped (the characters
  \<open>int\<close> accepts there are 9..13, 32, 133 and 160), then an optional sign and decimal
  digits follow, where single underscores may separate digits.  A literal of more than
  4300 digits (the interpreter's default \<open>sys.int_max_str_digits\<close>, which the game
  does not change) is refused.  \<open>None\<close> stands for \<open>ValueError\<close>.
\<close>

definition int_space :: "char \<Rightarrow> bool" where
  "int_space c =
     (let n = (of_char c :: nat) in (9 \<le> n \<and> n \<le> 13) \<or> n = 32 \<or> n = 133 \<or> n = 160)"

definition is_digit :: "char \<Rightarrow> bool" where
  "is_digit c = (let n = (of_char c :: nat) in 48 \<le> n \<and> n \<le> 57)"

text \<open>The value of the digits read so far and their number.\<close>

fun digits_value :: "nat \<Rightarrow> nat \<Rightarrow> string \<Rightarrow> (nat \<times> nat) option" where
  "digits_value acc n [] = Some (acc, n)"
| "digits_value acc n [c] =
     (if is_digit c then Some (10 * acc + (of_char c - 48), Suc n) else None)"
| "digits_value acc n (c # d # cs) =
     (if is_digit c then digits_value (10 * acc + (of_char c - 48)) (Suc n) (d # cs)
      else if c = CHR ''_'' \<and> is_digit d then digits_value acc n (d # cs)
      else None)"

definition int_max_str_digits :: nat where
  "int_max_str_digits = 4300"

definition unsigned_value :: "string \<Rightarrow> nat option" where
  "unsigned_value s =
     (case s of
        [] \<Rightarrow> None
      | c # cs \<Rightarrow>
          if is_digit c
          then (case digits_value 0 0 s of
                  None \<Rightarrow> None
                | Some (v, n) \<Rightarrow> if n > int_max_str_digits then None else Some v)
          else None)"

definition py_int :: "string \<Rightarrow> int option" where
  "py_int s =
     (let t = rev (dropWhile int_space (rev (dropWhile int_space s)))
      in case t of
           [] \<Rightarrow> None
         | c # cs \<Rightarrow>
             if c = CHR ''-'' then map_option (\<lambda>n. - int n) (unsigned_value cs)
             else if c = CHR ''+'' then map_option int (unsigned_value cs)
             else map_option int (unsigned_value t))"

section \<open>Unicode strings\<close>

text \<open>
  In general a Python \<open>str\<close> is a list of code points, \<open>ustr\<close>; \<open>lit\<close> gives the
  \<open>ustr\<close> of a literal.  What the interpreter does with code points from 256 up is
  decided by its Unicode database, which is no part of the repository: it is the parameter
  \<open>U\<close> of the functions below.  \<open>str.isspace\<close> and \<open>str.isalnum\<close> of a character
  are asked per code point; \<open>str.lower\<close>, \<open>str.upper\<close> and \<open>int\<close> of a string with
  a code point from 256 up are asked for the whole string (lower-casing looks at the
  context of a character).  On strings within Latin-1 the tables above decide.
\<close>

type_synonym ustr = "nat list"

definition lit :: "string \<Rightarrow> ustr" where
  "lit s = map of_char s"

record unicode_db =
  u_isspace :: "nat \<Rightarrow> bool"
  u_isalnum :: "nat \<Rightarrow> bool"
  u_lower :: "ustr \<Rightarrow> ustr"
  u_upper :: "ustr \<Rightarrow> ustr"
  u_int :: "ustr \<Rightarrow> int option"

definition latin1 :: "ustr \<Rightarrow> bool" where
  "latin1 s = list_all (\<lambda>c. c < 256) s"

definition chars_of :: "ustr \<Rightarrow> string" where
  "chars_of s = map char_of s"

definition isspace :: "unicode_db \<Rightarrow> nat \<Rightarrow> bool" where
  "isspace U c = (if c < 256 then py_isspace (char_of c) else u_isspace U c)"

definition isalnum :: "unicode_db \<Rightarrow> nat \<Rightarrow> bool" where
  "isalnum U c = (if c < 256 then py_isalnum (char_of c) else u_isalnum U c)"

definition strip :: "unicode_db \<Rightarrow> ustr \<Rightarrow> ustr" where
  "strip U s = rev (dropWhile (isspace U) (rev (dropWhile (isspace U) s)))"

definition lower :: "unicode_db \<Rightarrow> ustr \<Rightarrow> ustr" where
  "lower U s = (if latin1 s then lit (py_lower (chars_of s)) else u_lower U s)"

definition upper :: "unicode_db \<Rightarrow> ustr \<Rightarrow> ustr" where
  "upper U s = (if latin1 s then py_upper (chars_of s) else u_upper U s)"

definition int_of_str :: "unicode_db \<Rightarrow> ustr \<Rightarrow> int option" where
  "int_of_str U s = (if latin1 s then py_int (chars_of s) else u_int U s)"

text \<open>\<open>s.replace("-", ":")\<close>\<close>

definition dash_to_colon :: "ustr \<Rightarrow> ustr" where
  "dash_to_colon s = py_replace 45 58 s"

section \<open>Mission objectives\<close>

text \<open>
  Every mission keeps a dictionary \<open>objectives\<close> with a fixed set of keys; each entry is a
  dictionary with the flags \<open>completed\<close> and \<open>required\<close> and, for some objectives, counters.
  An entry is a record (the display texts \<open>title\<close>, \<open>description\<close> and \<open>hint\<close> are
  left out), and the dictionary is a record with one field per key; \<open>*_items\<close> lists the
  entries in insertion order, as \<open>self.objectives.items()\<close> does.
\<close>

record objective =
  completed :: bool
  required :: bool

text \<open>The loop of \<open>is_mission_complete\<close>, shared by the three mission classes.\<close>

fun all_required_completed :: "objective list \<Rightarrow> bool" where
  "all_required_completed [] = True"
| "all_required_completed (obj_data # rest) =
     (if required obj_data \<and> \<not> completed obj_data then False
      else all_required_completed rest)"

section \<open>Mission 3: validate\_answer\<close>

definition correct_answers :: "(ustr \<times> ustr) list" where
  "correct_answers =
     [(lit ''dest_mac'', lit ''00:1e:ec:26:d2:ac''),
      (lit ''src_mac'', lit ''26:02:06:49:6b:31''),
      (lit ''src_ip'', lit ''46.105.99.163''),
      (lit ''dest_ip'', lit ''192.168.4.2''),
      (lit ''packet_length'', lit ''66''),
      (lit ''protocol'', lit ''TCP''),
      (lit ''link_type'', lit ''Ethernet''),
      (lit ''timestamp'', lit ''15/06/2024'')]"

definition validate_answer :: "unicode_db \<Rightarrow> ustr \<Rightarrow> ustr \<Rightarrow> bool" where
  "validate_answer U field_key v =
     (case map_of correct_answers field_key of
        None \<Rightarrow> False
      | Some c \<Rightarrow>
          (let correct = lower U (strip U c);
               submitted = lower U (strip U v)
           in if field_key \<in> set [lit ''dest_mac'', lit ''src_mac'']
              then dash_to_colon submitted = dash_to_colon correct
              else submitted = correct))"

section \<open>Mission 2: packet analysis\<close>

text \<open>
  \<open>profile_data\<close> is the player's profile, a dictionary shared with the rest of the game;
  the missions read its key \<open>downloaded_tools\<close> and nothing else of it decides an
  objective.  \<open>None\<close> is the absent key.
\<close>

record profile_data =
  downloaded_tools :: "string list option"

definition get_downloaded_tools :: "profile_data \<Rightarrow> string list" where
  "get_downloaded_tools p = (case downloaded_tools p of None \<Rightarrow> [] | Some ts \<Rightarrow> ts)"

record threats_objective = objective +
  found_threats :: "string list"
  target_threats :: "string list"

record m2_objectives =
  download_wireshark :: objective
  open_wireshark :: objective
  find_suspicious_ip :: objective
  identify_threats :: threats_objective
  complete_report :: objective

record mission2 =
  m2_profile :: profile_data
  m2_objs :: m2_objectives
  wireshark_opened :: bool

definition m2_items :: "m2_objectives \<Rightarrow> objective list" where
  "m2_items os =
     [download_wireshark os, open_wireshark os, find_suspicious_ip os,
      objective.truncate (identify_threats os), complete_report os]"

definition suspicious_ip :: string where
  "suspicious_ip = ''192.168.1.66''"

text \<open>The keys of \<open>self.threat_types\<close>, each with its \<open>name\<close> and \<open>severity\<close>.\<close>

definition threat_types :: "(string \<times> string \<times> string) list" where
  "threat_types =
     [(''telnet_scan'', ''Scan Telnet'', ''high''),
      (''port_scan'', ''Scan de Ports'', ''medium''),
      (''discovery'', ''Decouverte Reseau'', ''medium''),
      (''printer_exploit'', ''Exploitation Imprimante'', ''high''),
      (''exfiltration'', ''Exfiltration de Donnees'', ''critical'')]"

definition new_objective :: objective where
  "new_objective = \<lparr>completed = False, required = True\<rparr>"

definition mission2_init :: "profile_data \<Rightarrow> mission2" where
  "mission2_init p =
     \<lparr>m2_profile = p,
      m2_objs =
        \<lparr>download_wireshark = new_objective,
         open_wireshark = new_objective,
         find_suspicious_ip = new_objective,
         identify_threats =
           \<lparr>completed = False, required = True, found_threats = [],
            target_threats =
              [''telnet_scan'', ''port_scan'', ''discovery'', ''printer_exploit'',
               ''exfiltration'']\<rparr>,
         complete_report = new_objective\<rparr>,
      wireshark_opened = False\<rparr>"

text \<open>Each method returns the mission after the call and the method's result.\<close>

definition check_wireshark_downloaded :: "mission2 \<Rightarrow> mission2 \<times> bool" where
  "check_wireshark_downloaded m =
     (if ''wireshark'' \<in> set (get_downloaded_tools (m2_profile m))
      then (m\<lparr>m2_objs := (m2_objs m)\<lparr>download_wireshark :=
                 (download_wireshark (m2_objs m))\<lparr>completed := True\<rparr>\<rparr>\<rparr>, True)
      else (m, False))"

definition mark_wireshark_opened :: "mission2 \<Rightarrow> mission2" where
  "mark_wireshark_opened m =
     (case check_wireshark_downloaded m of
        (m1, True) \<Rightarrow>
          m1\<lparr>wireshark_opened := True,
             m2_objs := (m2_objs m1)\<lparr>open_wireshark :=
                 (open_wireshark (m2_objs m1))\<lparr>completed := True\<rparr>\<rparr>\<rparr>
      | (m1, False) \<Rightarrow> m1)"

definition submit_suspicious_ip :: "string \<Rightarrow> mission2 \<Rightarrow> mission2 \<times> bool" where
  "submit_suspicious_ip ip_address m =
     (if py_strip ip_address = suspicious_ip
      then (m\<lparr>m2_objs := (m2_objs m)\<lparr>find_suspicious_ip :=
                 (find_suspicious_ip (m2_objs m))\<lparr>completed := True\<rparr>\<rparr>\<rparr>, True)
      else (m, False))"

definition report_threat_found :: "string \<Rightarrow> mission2 \<Rightarrow> mission2 \<times> bool" where
  "report_threat_found threat_type m =
     (if threat_type \<in> set (map fst threat_types)
      then
        (let it = identify_threats (m2_objs m);
             found = (if threat_type \<notin> set (found_threats it)
                      then found_threats it @ [threat_type] else found_threats it);
             it1 = it\<lparr>found_threats := found\<rparr>;
             it2 = (if list_all (\<lambda>t. t \<in> set found) (target_threats it1)
                    then it1\<lparr>completed := True\<rparr> else it1)
         in (m\<lparr>m2_objs := (m2_objs m)\<lparr>identify_threats := it2\<rparr>\<rparr>, True))
      else (m, False))"

definition check_report_complete :: "mission2 \<Rightarrow> mission2 \<times> bool" where
  "check_report_complete m =
     (if completed (find_suspicious_ip (m2_objs m)) \<and> completed (identify_threats (m2_objs m))
      then (m\<lparr>m2_objs := (m2_objs m)\<lparr>complete_report :=
                 (complete_report (m2_objs m))\<lparr>completed := True\<rparr>\<rparr>\<rparr>, True)
      else (m, False))"

definition m2_update_progress :: "mission2 \<Rightarrow> mission2" where
  "m2_update_progress m =
     (let m1 = fst (check_wireshark_downloaded m);
          m2 = (if wireshark_opened m1
                then m1\<lparr>m2_objs := (m2_objs m1)\<lparr>open_wireshark :=
                        (open_wireshark (m2_objs m1))\<lparr>completed := True\<rparr>\<rparr>\<rparr>
                else m1)
      in fst (check_report_complete m2))"

definition m2_is_mission_complete :: "mission2 \<Rightarrow> bool" where
  "m2_is_mission_complete m = all_required_completed (m2_items (m2_objs m))"

section \<open>The network simulator\<close>

record player_info =
  p_hostname :: ustr
  p_ip_address :: ustr
  p_mac_address :: ustr
  p_subnet_mask :: ustr
  p_default_gateway :: ustr
  p_dns_servers :: "ustr list"
  p_dhcp_enabled :: bool
  p_connection_type :: ustr
  p_adapter_name :: ustr

record router_info =
  r_hostname :: ustr
  r_ip_address :: ustr
  r_mac_address :: ustr
  r_model :: ustr
  r_firmware :: ustr

record NetworkDevice =
  hostname :: ustr
  ip_address :: ustr
  mac_address :: ustr
  device_type :: ustr
  manufacturer :: ustr

record network_info =
  network_address :: ustr
  broadcast_address :: ustr
  n_subnet_mask :: ustr
  cidr :: ustr
  total_devices :: nat
  dhcp_range :: ustr

record network_data =
  player :: player_info
  router :: router_info
  sim_devices :: "NetworkDevice list"
  network :: network_info

definition generate_fixed_devices :: "NetworkDevice list" where
  "generate_fixed_devices =
     [\<lparr>hostname = lit ''LAPTOP-MARIE'', ip_address = lit ''192.168.1.75'',
       mac_address = lit ''A4:5E:60:C2:D1:8F'', device_type = lit ''computer'',
       manufacturer = lit ''Dell''\<rparr>,
      \<lparr>hostname = lit ''iPhone-Papa'', ip_address = lit ''192.168.1.155'',
       mac_address = lit ''34:36:3B:A7:B2:C9'', device_type = lit ''phone'',
       manufacturer = lit ''Apple''\<rparr>,
      \<lparr>hostname = lit ''Smart-TV'', ip_address = lit ''192.168.1.185'',
       mac_address = lit ''D0:17:C2:5F:8A:3B'', device_type = lit ''iot'',
       manufacturer = lit ''Samsung''\<rparr>,
      \<lparr>hostname = lit ''Imprimante-HP'', ip_address = lit ''192.168.1.220'',
       mac_address = lit ''B8:27:EB:4D:2E:7C'', device_type = lit ''iot'',
       manufacturer = lit ''HP''\<rparr>]"

definition generate_network :: "ustr \<Rightarrow> network_data" where
  "generate_network player_nickname =
     (let router_ip = lit ''192.168.1.1'';
          router_mac = lit ''00:17:9A:2B:3C:4D'';
          player_ip = lit ''192.168.1.120'';
          player_mac = lit ''00:15:00-2B-3A-D4'';
          devices = generate_fixed_devices
      in \<lparr>player =
            \<lparr>p_hostname = player_nickname @ lit ''-PC'',
             p_ip_address = player_ip,
             p_mac_address = player_mac,
             p_subnet_mask = lit ''255.255.255.0'',
             p_default_gateway = router_ip,
             p_dns_servers = [lit ''8.8.8.8'', lit ''8.8.4.4''],
             p_dhcp_enabled = True,
             p_connection_type = lit ''Ethernet'',
             p_adapter_name = lit ''Ethernet0''\<rparr>,
          router =
            \<lparr>r_hostname = lit ''home'',
             r_ip_address = router_ip,
             r_mac_address = router_mac,
             r_model = lit ''D-Link DIR-825'',
             r_firmware = lit ''v2.3.24''\<rparr>,
          sim_devices = devices,
          network =
            \<lparr>network_address = lit ''192.168.1.0'',
             broadcast_address = lit ''192.168.1.255'',
             n_subnet_mask = lit ''255.255.255.0'',
             cidr = lit ''192.168.1.0/24'',
             total_devices = length devices + 2,
             dhcp_range = lit ''192.168.1.100 - 192.168.1.200''\<rparr>\<rparr>)"

text \<open>
  \<open>submitted_data\<close> and the result are dictionaries keyed by field name; a key is in the
  result exactly when it is in the submission.
\<close>

definition validate_mission1_data ::
  "unicode_db \<Rightarrow> network_data \<Rightarrow> (ustr \<rightharpoonup> ustr) \<Rightarrow> (ustr \<rightharpoonup> bool)" where
  "validate_mission1_data U nd submitted_data =
     (let r0 = Map.empty;
          r1 = (case submitted_data (lit ''ip_address'') of None \<Rightarrow> r0
                | Some v \<Rightarrow> r0(lit ''ip_address'' \<mapsto> strip U v = p_ip_address (player nd)));
          r2 = (case submitted_data (lit ''mac_address'') of None \<Rightarrow> r1
                | Some v \<Rightarrow>
                    (let submitted_mac = dash_to_colon (upper U (strip U v));
                         correct_mac = upper U (p_mac_address (player nd))
                     in r1(lit ''mac_address'' \<mapsto> submitted_mac = correct_mac)));
          r3 = (case submitted_data (lit ''gateway'') of None \<Rightarrow> r2
                | Some v \<Rightarrow> r2(lit ''gateway'' \<mapsto> strip U v = r_ip_address (router nd)));
          r4 = (case submitted_data (lit ''subnet_mask'') of None \<Rightarrow> r3
                | Some v \<Rightarrow>
                    r3(lit ''subnet_mask'' \<mapsto> strip U v = p_subnet_mask (player nd)));
          r5 = (case submitted_data (lit ''device_count'') of None \<Rightarrow> r4
                | Some v \<Rightarrow>
                    (case int_of_str U v of
                       Some count \<Rightarrow>
                         r4(lit ''device_count'' \<mapsto> count = int (total_devices (network nd)))
                     | None \<Rightarrow> r4(lit ''device_count'' \<mapsto> False)));
          r6 = (case submitted_data (lit ''router_name'') of None \<Rightarrow> r5
                | Some v \<Rightarrow>
                    r5(lit ''router_name'' \<mapsto>
                         upper U (strip U v) = upper U (r_hostname (router nd))))
      in r6)"

section \<open>Errors\<close>

text \<open>The exceptions the modelled code can raise; a computation that may raise returns
  \<open>py_error + 'a\<close>.\<close>

datatype py_error =
    KeyError | ValueError | IndexError | TypeError | OSError | JSONDecodeError
  | ZeroDivisionError | AttributeError

definition ebind :: "py_error + 'a \<Rightarrow> ('a \<Rightarrow> py_error + 'b) \<Rightarrow> py_error + 'b" where
  "ebind m f = (case m of Inl e \<Rightarrow> Inl e | Inr x \<Rightarrow> f x)"

section \<open>The random module\<close>

text \<open>
  The state of Python's global random generator is modelled by the sequence of raw
  outcomes it will deliver: \<open>randbelow n\<close> takes the next one and reduces it below \<open>n\<close>.
  Above \<open>_randbelow\<close> the functions follow the \<open>random\<close> module: \<open>randint(a, b)\<close> is
  \<open>a + _randbelow(b - a + 1)\<close>, \<open>choice(seq)\<close> is \<open>seq[_randbelow(len(seq))]\<close>,
  \<open>sample\<close> is the pool algorithm the module uses for populations of at most 21
  elements, and \<open>random()\<close> is a multiple \<open>k / 2^53\<close> with \<open>k < 2^53\<close>.
\<close>

type_synonym rng = "nat \<Rightarrow> nat"

definition randbelow :: "nat \<Rightarrow> rng \<Rightarrow> nat \<times> rng" where
  "randbelow n g = (g 0 mod n, \<lambda>i. g (Suc i))"

definition randint :: "int \<Rightarrow> int \<Rightarrow> rng \<Rightarrow> py_error + (int \<times> rng)" where
  "randint a b g =
     (if b < a then Inl ValueError
      else (case randbelow (nat (b - a + 1)) g of (r, g1) \<Rightarrow> Inr (a + int r, g1)))"

definition choice :: "'a list \<Rightarrow> rng \<Rightarrow> py_error + ('a \<times> rng)" where
  "choice seq g =
     (if seq = [] then Inl IndexError
      else (case randbelow (length seq) g of (j, g1) \<Rightarrow> Inr (seq ! j, g1)))"

text \<open>
  \<open>for i in range(k): j = randbelow(n - i); result[i] = pool[j]; pool[j] = pool[n - i - 1]\<close>,
  with \<open>m = n - i\<close> the number of pool positions still in play.
\<close>

fun sample_loop :: "nat \<Rightarrow> 'a list \<Rightarrow> nat \<Rightarrow> rng \<Rightarrow> 'a list \<times> rng" where
  "sample_loop 0 pool m g = ([], g)"
| "sample_loop (Suc k) pool m g =
     (case randbelow m g of
        (j, g1) \<Rightarrow>
          (case sample_loop k (pool[j := pool ! (m - 1)]) (m - 1) g1 of
             (rest, g2) \<Rightarrow> (pool ! j # rest, g2)))"

definition sample :: "'a list \<Rightarrow> int \<Rightarrow> rng \<Rightarrow> py_error + ('a list \<times> rng)" where
  "sample population k g =
     (if \<not> (0 \<le> k \<and> k \<le> int (length population)) then Inl ValueError
      else Inr (sample_loop (nat k) population (length population) g))"

text \<open>\<open>random.random() > 0.3\<close>: the double \<open>0.3\<close> is \<open>5404319552844595 / 2^54\<close>, so
  \<open>k / 2^53\<close> exceeds it exactly when \<open>2 * k > 5404319552844595\<close>.\<close>

definition random_gt_03 :: "rng \<Rightarrow> bool \<times> rng" where
  "random_gt_03 g = (case randbelow (2 ^ 53) g of (k, g1) \<Rightarrow> (2 * k > 5404319552844595, g1))"

section \<open>Number formatting\<close>

definition digit_char :: "nat \<Rightarrow> char" where
  "digit_char d = ''0123456789ABCDEF'' ! d"

fun hex_str :: "nat \<Rightarrow> string" where
  "hex_str n = (if n < 16 then [digit_char n] else hex_str (n div 16) @ [digit_char (n mod 16)])"

fun dec_str :: "nat \<Rightarrow> string" where
  "dec_str n = (if n < 10 then [digit_char n] else dec_str (n div 10) @ [digit_char (n mod 10)])"

text \<open>The format \<open>{n:02X}\<close> for \<open>n \<ge> 0\<close>.\<close>

definition format_02X :: "nat \<Rightarrow> string" where
  "format_02X n = (let h = hex_str n in if length h < 2 then CHR ''0'' # h else h)"

text \<open>\<open>":".join(parts)\<close>\<close>

fun join_colon :: "string list \<Rightarrow> string" where
  "join_colon [] = []"
| "join_colon [x] = x"
| "join_colon (x # y # ys) = x @ '':'' @ join_colon (y # ys)"

section \<open>The network generator\<close>

record Device =
  name :: string
  ip :: string
  mac :: string
  dtype :: string
  open_ports :: "int list"
  is_trusted :: bool
  isolated :: bool

record template =
  t_name :: string
  t_type :: string
  possible_ports :: "int list"
  t_risky_ports :: "int list"
  trusted :: bool

definition DEVICE_TEMPLATES :: "(string \<times> template) list" where
  "DEVICE_TEMPLATES =
     [(''router'',
       \<lparr>t_name = ''Router'', t_type = ''router'', possible_ports = [22, 23, 80, 443, 8080],
        t_risky_ports = [23], trusted = True\<rparr>),
      (''player_pc'',
       \<lparr>t_name = ''PC-Principal'', t_type = ''computer'', possible_ports = [22, 80, 443, 3389],
        t_risky_ports = [], trusted = True\<rparr>),
      (''phone'',
       \<lparr>t_name = ''Smartphone'', t_type = ''mobile'', possible_ports = [443, 8080],
        t_risky_ports = [], trusted = True\<rparr>),
      (''iot_camera'',
       \<lparr>t_name = ''Camera-IP'', t_type = ''iot'', possible_ports = [23, 80, 554, 8080],
        t_risky_ports = [23], trusted = True\<rparr>),
      (''unknown_device'',
       \<lparr>t_name = ''Device-Inconnu'', t_type = ''unknown'', possible_ports = [23, 445, 3389],
        t_risky_ports = [23, 445], trusted = False\<rparr>)]"

definition network_base :: string where
  "network_base = ''192.168.1''"

fun randint_list :: "nat \<Rightarrow> int \<Rightarrow> int \<Rightarrow> rng \<Rightarrow> py_error + (int list \<times> rng)" where
  "randint_list 0 a b g = Inr ([], g)"
| "randint_list (Suc n) a b g =
     ebind (randint a b g) (\<lambda>(x, g1).
     ebind (randint_list n a b g1) (\<lambda>(xs, g2). Inr (x # xs, g2)))"

definition generate_mac :: "rng \<Rightarrow> py_error + (string \<times> rng)" where
  "generate_mac g =
     ebind (randint_list 6 0 255 g) (\<lambda>(xs, g1).
       Inr (join_colon (map (\<lambda>x. format_02X (nat x)) xs), g1))"

definition generate_ip :: "nat \<Rightarrow> string" where
  "generate_ip host_id = network_base @ ''.'' @ dec_str host_id"

definition create_device :: "string \<Rightarrow> nat \<Rightarrow> rng \<Rightarrow> py_error + (Device \<times> rng)" where
  "create_device template_key host_id g =
     (case map_of DEVICE_TEMPLATES template_key of
        None \<Rightarrow> Inl KeyError
      | Some t \<Rightarrow>
          ebind (randint 2 3 g) (\<lambda>(num_ports, g1).
          ebind (sample (possible_ports t) (min num_ports (int (length (possible_ports t)))) g1)
            (\<lambda>(selected_ports, g2).
          ebind
            (if t_risky_ports t \<noteq> [] then
               (case random_gt_03 g2 of
                  (True, g3) \<Rightarrow>
                    ebind (choice (t_risky_ports t) g3) (\<lambda>(risky_port, g4).
                      Inr (if risky_port \<notin> set selected_ports
                           then selected_ports @ [risky_port] else selected_ports, g4))
                | (False, g3) \<Rightarrow> Inr (selected_ports, g3))
             else Inr (selected_ports, g2))
            (\<lambda>(selected_ports, g5).
          ebind (generate_mac g5) (\<lambda>(m, g6).
            Inr (\<lparr>name = t_name t, ip = generate_ip host_id, mac = m, dtype = t_type t,
                  open_ports = sort selected_ports, is_trusted = trusted t,
                  isolated = False\<rparr>, g6))))))"

record risky_port_entry =
  rp_device :: string
  rp_ip :: string
  port :: int
  service :: string

record untrusted_entry =
  ud_name :: string
  ud_ip :: string
  ud_mac :: string

record vulnerabilities =
  risky_ports :: "risky_port_entry list"
  untrusted_devices :: "untrusted_entry list"

record network_config =
  network_id :: string
  subnet :: string
  gateway :: string
  devices :: "Device list"
  vulns :: vulnerabilities
  security_status :: string

text \<open>The loop over \<open>self.devices\<close> that collects the vulnerabilities.\<close>

fun risky_ports_found :: "Device list \<Rightarrow> risky_port_entry list" where
  "risky_ports_found [] = []"
| "risky_ports_found (d # ds) =
     (if 23 \<in> set (open_ports d)
      then \<lparr>rp_device = name d, rp_ip = ip d, port = 23, service = ''Telnet''\<rparr>
             # risky_ports_found ds
      else risky_ports_found ds)"

fun untrusted_found :: "Device list \<Rightarrow> untrusted_entry list" where
  "untrusted_found [] = []"
| "untrusted_found (d # ds) =
     (if \<not> is_trusted d
      then \<lparr>ud_name = name d, ud_ip = ip d, ud_mac = mac d\<rparr> # untrusted_found ds
      else untrusted_found ds)"

definition generate_mission1_network :: "rng \<Rightarrow> py_error + (network_config \<times> rng)" where
  "generate_mission1_network g =
     ebind (create_device ''router'' 1 g) (\<lambda>(d1, g1).
     ebind (create_device ''player_pc'' 10 g1) (\<lambda>(d2, g2).
     ebind (create_device ''phone'' 20 g2) (\<lambda>(d3, g3).
     ebind (create_device ''iot_camera'' 30 g3) (\<lambda>(d4, g4).
     ebind (create_device ''unknown_device'' 50 g4) (\<lambda>(d5, g5).
       (let ds = [d1, d2, d3, d4, d5] in
        ebind (randint 1000 9999 g5) (\<lambda>(n, g6).
          Inr (\<lparr>network_id = ''net_'' @ dec_str (nat n),
                subnet = network_base @ ''.0/24'',
                gateway = network_base @ ''.1'',
                devices = ds,
                vulns = \<lparr>risky_ports = risky_ports_found ds,
                          untrusted_devices = untrusted_found ds\<rparr>,
                security_status = ''vulnerable''\<rparr>, g6))))))))"

text \<open>The formats \<open>{i:04d}\<close> and \<open>{i:02d}\<close> for \<open>i \<ge> 0\<close>.\<close>

definition zero_pad :: "nat \<Rightarrow> nat \<Rightarrow> string" where
  "zero_pad width i = replicate (width - length (dec_str i)) (CHR ''0'') @ dec_str i"

record packet =
  pkt_id :: string
  pkt_timestamp :: string
  src_ip :: string
  src_port :: int
  dst_ip :: string
  dst_port :: int
  protocol :: string
  pkt_length :: int
  payload :: string
  is_suspicious :: bool

text \<open>One round of the loop of \<open>generate_packets\<close>.\<close>

definition make_packet :: "Device list \<Rightarrow> nat \<Rightarrow> rng \<Rightarrow> py_error + (packet \<times> rng)" where
  "make_packet devs i g =
     ebind (choice devs g) (\<lambda>(src_device, g1).
     ebind (choice (filter (\<lambda>d. d \<noteq> src_device) devs) g1) (\<lambda>(dst_device, g2).
     ebind (choice [''TCP'', ''UDP'', ''ICMP''] g2) (\<lambda>(proto, g3).
     ebind
       (if proto \<in> set [''TCP'', ''UDP'']
        then
          ebind (if open_ports src_device \<noteq> [] then choice (open_ports src_device) g3
                 else randint 1024 65535 g3) (\<lambda>(sp, g4).
          ebind (if open_ports dst_device \<noteq> [] then choice (open_ports dst_device) g4
                 else randint 1 1024 g4) (\<lambda>(dp, g5). Inr ((sp, dp), g5)))
        else Inr ((0, 0), g3))
       (\<lambda>((sp, dp), g6).
         (let suspicious = (\<not> is_trusted src_device \<or> \<not> is_trusted dst_device);
              pl = (if suspicious \<and> dp = 23 then ''LOGIN ATTEMPT: admin:admin''
                      else if suspicious then ''SCAN ATTEMPT''
                      else ''NORMAL TRAFFIC'')
          in ebind (randint 60 1500 g6) (\<lambda>(len, g7).
               Inr (\<lparr>pkt_id = ''PKT_'' @ zero_pad 4 i,
                     pkt_timestamp = ''2024-01-15 10:'' @ zero_pad 2 i @ '':00'',
                     src_ip = ip src_device, src_port = sp,
                     dst_ip = ip dst_device, dst_port = dp,
                     protocol = proto, pkt_length = len, payload = pl,
                     is_suspicious = suspicious\<rparr>, g7)))))))"

fun packets_loop :: "Device list \<Rightarrow> nat list \<Rightarrow> rng \<Rightarrow> py_error + (packet list \<times> rng)" where
  "packets_loop devs [] g = Inr ([], g)"
| "packets_loop devs (i # rest) g =
     ebind (make_packet devs i g) (\<lambda>(pk, g1).
     ebind (packets_loop devs rest g1) (\<lambda>(pks, g2). Inr (pk # pks, g2)))"

definition generate_packets ::
  "network_config \<Rightarrow> nat \<Rightarrow> rng \<Rightarrow> py_error + (packet list \<times> rng)" where
  "generate_packets cfg count g = packets_loop (devices cfg) [0..<count] g"

section \<open>Mission 1: network reconnaissance\<close>

record identify_objective = objective +
  progress :: nat
  target :: nat

record ports_objective = objective +
  found_ports :: "int list"

record questions_objective = objective +
  questions_answered :: nat
  questions_total :: nat

record isolate_objective = objective +
  isolated_count :: nat
  target_count :: nat

record block_objective = objective +
  blocked_ports :: "int list"

record m1_objectives =
  scan_network :: objective
  identify_devices :: identify_objective
  find_risky_ports :: ports_objective
  analyze_packets :: questions_objective
  isolate_threats :: isolate_objective
  block_risky_ports :: block_objective
  final_audit :: objective

text \<open>
  \<open>self.packets\<close>, the capture that \<open>generate_packets\<close> draws for display, is left
  out: no objective reads it.
\<close>

record mission1 =
  m1_profile :: profile_data
  m1_network_config :: network_config
  m1_objs :: m1_objectives
  commands_used :: "string list"
  devices_discovered :: "string list"

definition m1_items :: "m1_objectives \<Rightarrow> objective list" where
  "m1_items os =
     [scan_network os, objective.truncate (identify_devices os),
      objective.truncate (find_risky_ports os), objective.truncate (analyze_packets os),
      objective.truncate (isolate_threats os), objective.truncate (block_risky_ports os),
      final_audit os]"

definition mission1_init :: "profile_data \<Rightarrow> network_config \<Rightarrow> mission1" where
  "mission1_init p cfg =
     \<lparr>m1_profile = p,
      m1_network_config = cfg,
      m1_objs =
        \<lparr>scan_network = new_objective,
         identify_devices = \<lparr>completed = False, required = True, progress = 0, target = 5\<rparr>,
         find_risky_ports = \<lparr>completed = False, required = True, found_ports = []\<rparr>,
         analyze_packets =
           \<lparr>completed = False, required = True, questions_answered = 0,
            questions_total = 5\<rparr>,
         isolate_threats =
           \<lparr>completed = False, required = True, isolated_count = 0,
            target_count = length (untrusted_devices (vulns cfg))\<rparr>,
         block_risky_ports = \<lparr>completed = False, required = True, blocked_ports = []\<rparr>,
         final_audit = new_objective\<rparr>,
      commands_used = [],
      devices_discovered = []\<rparr>"

text \<open>\<open>Mission1NetworkRecon(profile_data)\<close>: the network and then the fifteen packets
  come from the global generator.\<close>

definition Mission1NetworkRecon :: "profile_data \<Rightarrow> rng \<Rightarrow> py_error + (mission1 \<times> rng)" where
  "Mission1NetworkRecon p g =
     ebind (generate_mission1_network g) (\<lambda>(cfg, g1).
     ebind (generate_packets cfg 15 g1) (\<lambda>(pkts, g2). Inr (mission1_init p cfg, g2)))"

text \<open>The terminal's state dictionary; \<open>None\<close> is an absent key.\<close>

record terminal_state =
  commands_history :: "string list option"
  ts_blocked_ports :: "int list option"
  ts_isolated_devices :: "string list option"
  network_scanned :: "bool option"
  ts_devices_discovered :: "string list option"

definition get_or :: "'a option \<Rightarrow> 'a \<Rightarrow> 'a" where
  "get_or v d = (case v of None \<Rightarrow> d | Some x \<Rightarrow> x)"

definition check_scan_network_complete :: "mission1 \<Rightarrow> mission1 \<times> bool" where
  "check_scan_network_complete m =
     (if ''scan network'' \<in> set (commands_used m)
      then (m\<lparr>m1_objs := (m1_objs m)\<lparr>scan_network :=
                 (scan_network (m1_objs m))\<lparr>completed := True\<rparr>\<rparr>\<rparr>, True)
      else (m, False))"

definition check_identify_devices_complete :: "mission1 \<Rightarrow> mission1 \<times> bool" where
  "check_identify_devices_complete m =
     (let discovered = length (devices_discovered m);
          m1 = m\<lparr>m1_objs := (m1_objs m)\<lparr>identify_devices :=
                  (identify_devices (m1_objs m))\<lparr>progress := discovered\<rparr>\<rparr>\<rparr>
      in if discovered \<ge> target (identify_devices (m1_objs m1))
         then (m1\<lparr>m1_objs := (m1_objs m1)\<lparr>identify_devices :=
                    (identify_devices (m1_objs m1))\<lparr>completed := True\<rparr>\<rparr>\<rparr>, True)
         else (m1, False))"

text \<open>The loop over \<open>risky_ports\<close> returns at the first entry for port 23 that is among
  the found ports.\<close>

fun risky_found_loop :: "risky_port_entry list \<Rightarrow> int list \<Rightarrow> bool" where
  "risky_found_loop [] found = False"
| "risky_found_loop (vuln # rest) found =
     (if port vuln = 23 \<and> 23 \<in> set found then True else risky_found_loop rest found)"

definition check_find_risky_ports_complete :: "mission1 \<Rightarrow> mission1 \<times> bool" where
  "check_find_risky_ports_complete m =
     (if risky_found_loop (risky_ports (vulns (m1_network_config m)))
           (found_ports (find_risky_ports (m1_objs m)))
      then (m\<lparr>m1_objs := (m1_objs m)\<lparr>find_risky_ports :=
                 (find_risky_ports (m1_objs m))\<lparr>completed := True\<rparr>\<rparr>\<rparr>, True)
      else (m, False))"

fun count_isolated :: "untrusted_entry list \<Rightarrow> string list \<Rightarrow> nat" where
  "count_isolated [] isolated_devices = 0"
| "count_isolated (device # rest) isolated_devices =
     (if ud_mac device \<in> set isolated_devices then 1 else 0)
       + count_isolated rest isolated_devices"

definition check_isolate_threats_complete :: "string list \<Rightarrow> mission1 \<Rightarrow> mission1 \<times> bool" where
  "check_isolate_threats_complete isolated_devices m =
     (let n = count_isolated (untrusted_devices (vulns (m1_network_config m))) isolated_devices;
          m1 = m\<lparr>m1_objs := (m1_objs m)\<lparr>isolate_threats :=
                  (isolate_threats (m1_objs m))\<lparr>isolated_count := n\<rparr>\<rparr>\<rparr>
      in if n \<ge> target_count (isolate_threats (m1_objs m1))
         then (m1\<lparr>m1_objs := (m1_objs m1)\<lparr>isolate_threats :=
                    (isolate_threats (m1_objs m1))\<lparr>completed := True\<rparr>\<rparr>\<rparr>, True)
         else (m1, False))"

definition check_block_risky_ports_complete :: "int list \<Rightarrow> mission1 \<Rightarrow> mission1 \<times> bool" where
  "check_block_risky_ports_complete blocked m =
     (if 23 \<in> set blocked
      then (m\<lparr>m1_objs := (m1_objs m)\<lparr>block_risky_ports :=
                 (block_risky_ports (m1_objs m))\<lparr>completed := True, blocked_ports := blocked\<rparr>\<rparr>\<rparr>,
            True)
      else (m, False))"

definition check_final_audit_complete ::
  "string list \<Rightarrow> int list \<Rightarrow> mission1 \<Rightarrow> mission1 \<times> bool" where
  "check_final_audit_complete isolated_devices blocked m =
     (let untrusted = untrusted_devices (vulns (m1_network_config m));
          untrusted_isolated = list_all (\<lambda>device. ud_mac device \<in> set isolated_devices) untrusted;
          risky = risky_ports (vulns (m1_network_config m));
          risky_blocked = list_all (\<lambda>vuln. port vuln \<in> set blocked) risky
      in if untrusted_isolated \<and> risky_blocked
         then (m\<lparr>m1_objs := (m1_objs m)\<lparr>final_audit :=
                    (final_audit (m1_objs m))\<lparr>completed := True\<rparr>\<rparr>\<rparr>, True)
         else (m, False))"

definition m1_update_progress :: "terminal_state \<Rightarrow> mission1 \<Rightarrow> mission1" where
  "m1_update_progress ts m =
     (let m0 = m\<lparr>commands_used := get_or (commands_history ts) [],
                 devices_discovered := get_or (ts_devices_discovered ts) []\<rparr>;
          blocked = get_or (ts_blocked_ports ts) [];
          isolated_devices = get_or (ts_isolated_devices ts) [];
          m1 = fst (check_scan_network_complete m0);
          m2 = fst (check_identify_devices_complete m1);
          m3 = fst (check_isolate_threats_complete isolated_devices m2);
          m4 = fst (check_block_risky_ports_complete blocked m3)
      in fst (check_final_audit_complete isolated_devices blocked m4))"

definition m1_is_mission_complete :: "mission1 \<Rightarrow> bool" where
  "m1_is_mission_complete m = all_required_completed (m1_items (m1_objs m))"

section \<open>Mission 3: PCAP analysis\<close>

record m3_objectives =
  download_pcap_analyzer :: objective
  open_pcap_analyzer :: objective
  extract_mac_dest :: objective
  extract_mac_src :: objective
  extract_ip_src :: objective
  extract_ip_dest :: objective
  identify_protocol :: objective
  m3_complete_report :: objective

record mission3 =
  m3_profile :: profile_data
  m3_objs :: m3_objectives
  pcap_analyzer_opened :: bool

definition m3_items :: "m3_objectives \<Rightarrow> objective list" where
  "m3_items os =
     [download_pcap_analyzer os, open_pcap_analyzer os, extract_mac_dest os,
      extract_mac_src os, extract_ip_src os, extract_ip_dest os, identify_protocol os,
      m3_complete_report os]"

definition mission3_init :: "profile_data \<Rightarrow> mission3" where
  "mission3_init p =
     \<lparr>m3_profile = p,
      m3_objs =
        \<lparr>download_pcap_analyzer = new_objective, open_pcap_analyzer = new_objective,
         extract_mac_dest = new_objective, extract_mac_src = new_objective,
         extract_ip_src = new_objective, extract_ip_dest = new_objective,
         identify_protocol = new_objective, m3_complete_report = new_objective\<rparr>,
      pcap_analyzer_opened = False\<rparr>"

definition check_pcap_analyzer_downloaded :: "mission3 \<Rightarrow> mission3 \<times> bool" where
  "check_pcap_analyzer_downloaded m =
     (if ''pcap_analyzer'' \<in> set (get_downloaded_tools (m3_profile m))
      then (m\<lparr>m3_objs := (m3_objs m)\<lparr>download_pcap_analyzer :=
                 (download_pcap_analyzer (m3_objs m))\<lparr>completed := True\<rparr>\<rparr>\<rparr>, True)
      else (m, False))"

definition mark_pcap_analyzer_opened :: "mission3 \<Rightarrow> mission3" where
  "mark_pcap_analyzer_opened m =
     (case check_pcap_analyzer_downloaded m of
        (m1, True) \<Rightarrow>
          m1\<lparr>pcap_analyzer_opened := True,
             m3_objs := (m3_objs m1)\<lparr>open_pcap_analyzer :=
                 (open_pcap_analyzer (m3_objs m1))\<lparr>completed := True\<rparr>\<rparr>\<rparr>
      | (m1, False) \<Rightarrow> m1)"

definition m3_is_mission_complete :: "mission3 \<Rightarrow> bool" where
  "m3_is_mission_complete m = all_required_completed (m3_items (m3_objs m))"

section \<open>Python values and files\<close>

text \<open>
  The values \<open>json.load\<close> produces and \<open>json.dump\<close> accepts.  A dictionary is an
  association list in insertion order with string keys; a float \<open>PFloat m e\<close> stands for
  \<open>m * 2^e\<close>.
\<close>

datatype pyval =
    PNone
  | PBool bool
  | PInt int
  | PFloat int int
  | PStr ustr
  | PList "pyval list"
  | PDict "(ustr \<times> pyval) list"

type_synonym pydict = "(ustr \<times> pyval) list"

text \<open>\<open>d[k] = v\<close>: an existing key keeps its place, a new key goes last.\<close>

fun dict_set :: "ustr \<Rightarrow> pyval \<Rightarrow> pydict \<Rightarrow> pydict" where
  "dict_set k v [] = [(k, v)]"
| "dict_set k v ((k', v') # d) = (if k = k' then (k, v) # d else (k', v') # dict_set k v d)"

text \<open>\<open>d.get(k, dflt)\<close> on a value: only a dictionary has \<open>get\<close>.\<close>

definition py_get :: "pyval \<Rightarrow> ustr \<Rightarrow> pyval \<Rightarrow> py_error + pyval" where
  "py_get d k dflt =
     (case d of
        PDict kvs \<Rightarrow> (case map_of kvs k of None \<Rightarrow> Inr dflt | Some v \<Rightarrow> Inr v)
      | _ \<Rightarrow> Inl AttributeError)"

text \<open>
  A file holds either a JSON document, given by the value \<open>json.load\<close> decodes it to
  (\<open>json.dump\<close> followed by \<open>json.load\<close> gives the value back), or text that
  \<open>json.load\<close> rejects.  A file system is the list of its files by path, the list of
  its directories, and what the operating system refuses for other reasons (permissions,
  a missing parent directory, a full disk): \<open>read_denied p\<close> makes \<open>open(p, 'r')\<close>
  and \<open>os.listdir(p)\<close> raise, \<open>write_denied p\<close> makes \<open>open(p, 'w')\<close> and
  \<open>os.remove(p)\<close> raise, \<open>dump_fails p\<close> makes the write after a successful
  \<open>open(p, 'w')\<close> raise, which leaves the truncated file behind.  Paths are compared as
  they are written.
\<close>

datatype content = Json pyval | Garbage

record filesystem =
  files :: "(ustr \<times> content) list"
  dirs :: "ustr list"
  read_denied :: "ustr \<Rightarrow> bool"
  write_denied :: "ustr \<Rightarrow> bool"
  dump_fails :: "ustr \<Rightarrow> bool"

definition path_exists :: "filesystem \<Rightarrow> ustr \<Rightarrow> bool" where
  "path_exists fs p = (p \<in> set (map fst (files fs)) \<or> p \<in> set (dirs fs))"

definition write_file :: "ustr \<Rightarrow> content \<Rightarrow> filesystem \<Rightarrow> filesystem" where
  "write_file p c fs = fs\<lparr>files := (p, c) # filter (\<lambda>(q, _). q \<noteq> p) (files fs)\<rparr>"

definition remove_file :: "ustr \<Rightarrow> filesystem \<Rightarrow> filesystem" where
  "remove_file p fs = fs\<lparr>files := filter (\<lambda>(q, _). q \<noteq> p) (files fs)\<rparr>"

text \<open>\<open>with open(p, 'r') as f: json.load(f)\<close>\<close>

definition read_json :: "filesystem \<Rightarrow> ustr \<Rightarrow> py_error + pyval" where
  "read_json fs p =
     (if read_denied fs p \<or> p \<in> set (dirs fs) then Inl OSError
      else (case map_of (files fs) p of
              None \<Rightarrow> Inl OSError
            | Some Garbage \<Rightarrow> Inl JSONDecodeError
            | Some (Json v) \<Rightarrow> Inr v))"

text \<open>\<open>with open(p, 'w') as f: json.dump(v, f)\<close>: the new file system and the error raised,
  if any.\<close>

definition write_json :: "filesystem \<Rightarrow> ustr \<Rightarrow> pyval \<Rightarrow> filesystem \<times> py_error option" where
  "write_json fs p v =
     (if write_denied fs p \<or> p \<in> set (dirs fs) then (fs, Some OSError)
      else if dump_fails fs p then (write_file p Garbage fs, Some OSError)
      else (write_file p (Json v) fs, None))"

text \<open>\<open>os.path.join(a, b)\<close> of \<open>posixpath\<close>.\<close>

definition path_join :: "ustr \<Rightarrow> ustr \<Rightarrow> ustr" where
  "path_join a b =
     (if b \<noteq> [] \<and> hd b = 47 then b
      else if a = [] \<or> last a = 47 then a @ b
      else a @ [47] @ b)"

text \<open>
  \<open>os.listdir(d)\<close>: the names of the files and directories directly in \<open>d\<close>, which are
  the paths that \<open>path_join d\<close> makes of a name without a slash.
\<close>

definition child_name :: "ustr \<Rightarrow> ustr \<Rightarrow> ustr option" where
  "child_name d p =
     (let pre = path_join d []; n = drop (length pre) p
      in if take (length pre) p = pre \<and> n \<noteq> [] \<and> 47 \<notin> set n then Some n else None)"

definition listdir :: "filesystem \<Rightarrow> ustr \<Rightarrow> py_error + ustr list" where
  "listdir fs d =
     (if d \<notin> set (dirs fs) \<or> read_denied fs d then Inl OSError
      else Inr (remdups (List.map_filter (child_name d) (map fst (files fs) @ dirs fs))))"

section \<open>SaveLoadManager\<close>

definition str_isalnum :: "unicode_db \<Rightarrow> ustr \<Rightarrow> bool" where
  "str_isalnum U s = (s \<noteq> [] \<and> list_all (isalnum U) s)"

text \<open>
  \<open>"".join(c for c in nickname if c.isalnum() or c in "_-").lower()\<close>.  Iterating a
  \<open>str\<close> yields its characters; a list yields its elements and a dictionary its keys,
  where \<open>c in "_-"\<close> is the substring test and an element that is not a \<open>str\<close> has
  no \<open>isalnum\<close>; any other value is not iterable.
\<close>

definition keep_item :: "unicode_db \<Rightarrow> ustr \<Rightarrow> bool" where
  "keep_item U c = (str_isalnum U c \<or> c \<in> set [[], lit ''_'', lit ''-'', lit ''_-''])"

fun clean_items :: "unicode_db \<Rightarrow> pyval list \<Rightarrow> py_error + ustr" where
  "clean_items U [] = Inr []"
| "clean_items U (PStr c # rest) =
     (if keep_item U c then ebind (clean_items U rest) (\<lambda>r. Inr (c @ r))
      else clean_items U rest)"
| "clean_items U (_ # rest) = Inl AttributeError"

definition clean_nickname :: "unicode_db \<Rightarrow> pyval \<Rightarrow> py_error + ustr" where
  "clean_nickname U nickname =
     (case nickname of
        PStr s \<Rightarrow> Inr (lower U (filter (\<lambda>c. isalnum U c \<or> c = 95 \<or> c = 45) s))
      | PList xs \<Rightarrow> ebind (clean_items U xs) (\<lambda>r. Inr (lower U r))
      | PDict d \<Rightarrow> ebind (clean_items U (map (PStr \<circ> fst) d)) (\<lambda>r. Inr (lower U r))
      | _ \<Rightarrow> Inl TypeError)"

definition get_profile_filename :: "unicode_db \<Rightarrow> ustr \<Rightarrow> pyval \<Rightarrow> py_error + ustr" where
  "get_profile_filename U profiles_dir nickname =
     ebind (clean_nickname U nickname)
       (\<lambda>c. Inr (path_join profiles_dir (c @ lit ''_profile.json'')))"

text \<open>
  The messages of the \<open>(success, message)\<close> pairs: \<open>Saved n\<close> is the text that the
  profile \<open>n\<close> was saved, \<open>SaveError e\<close> that saving failed with \<open>e\<close>,
  \<open>NoProfile n\<close> that the profile \<open>n\<close> does not exist, \<open>Deleted n\<close> that it was
  deleted and \<open>DeleteError e\<close> that deleting failed with \<open>e\<close>.
\<close>

datatype message =
    Saved pyval
  | SaveError py_error
  | NoProfile pyval
  | Deleted pyval
  | DeleteError py_error

definition initial_progress :: pyval where
  "initial_progress =
     PDict [(lit ''current_stage'', PStr (lit ''profile_created'')),
            (lit ''stages_completed'', PList [PStr (lit ''profile_creation'')]),
            (lit ''missions_completed'', PList []),
            (lit ''current_mission'', PNone)]"

text \<open>The metadata \<open>save_profile\<close> writes into the caller's dictionary before it looks
  the nickname up; \<open>now1\<close> and \<open>now2\<close> are the two readings of the clock.\<close>

definition add_metadata :: "ustr \<Rightarrow> ustr \<Rightarrow> pydict \<Rightarrow> pydict" where
  "add_metadata now1 now2 profile =
     (let p1 = dict_set (lit ''saved_at'') (PStr now1) profile;
          p2 = (if lit ''created_at'' \<notin> set (map fst p1)
                then dict_set (lit ''created_at'') (PStr now2) p1 else p1);
          p3 = (if lit ''progress'' \<notin> set (map fst p2)
                then dict_set (lit ''progress'') initial_progress p2 else p2)
      in p3)"

text \<open>
  The body of the \<open>try\<close> block of each method gives the file system after it and either
  the exception raised or the value returned; the method itself turns the exception into
  its failure value.  A method result \<open>Inl e\<close> would be an exception that leaves the
  method.
\<close>

definition save_profile_try ::
  "unicode_db \<Rightarrow> ustr \<Rightarrow> ustr \<Rightarrow> ustr \<Rightarrow> filesystem \<Rightarrow> pydict
     \<Rightarrow> filesystem \<times> (py_error + bool \<times> message)" where
  "save_profile_try U profiles_dir now1 now2 fs profile =
     (let p = add_metadata now1 now2 profile
      in case map_of p (lit ''nickname'') of
           None \<Rightarrow> (fs, Inl KeyError)
         | Some nick \<Rightarrow>
             (case get_profile_filename U profiles_dir nick of
                Inl e \<Rightarrow> (fs, Inl e)
              | Inr filename \<Rightarrow>
                  (case write_json fs filename (PDict p) of
                     (fs1, Some e) \<Rightarrow> (fs1, Inl e)
                   | (fs1, None) \<Rightarrow> (fs1, Inr (True, Saved nick)))))"

definition save_profile ::
  "unicode_db \<Rightarrow> ustr \<Rightarrow> ustr \<Rightarrow> ustr \<Rightarrow> filesystem \<Rightarrow> pydict
     \<Rightarrow> py_error + (filesystem \<times> bool \<times> message)" where
  "save_profile U profiles_dir now1 now2 fs profile =
     (case save_profile_try U profiles_dir now1 now2 fs profile of
        (fs1, Inr r) \<Rightarrow> Inr (fs1, r)
      | (fs1, Inl e) \<Rightarrow> Inr (fs1, (False, SaveError e)))"

definition load_profile_try ::
  "unicode_db \<Rightarrow> ustr \<Rightarrow> filesystem \<Rightarrow> pyval \<Rightarrow> py_error + pyval" where
  "load_profile_try U profiles_dir fs nickname =
     ebind (get_profile_filename U profiles_dir nickname) (\<lambda>filename.
       if \<not> path_exists fs filename then Inr PNone
       else read_json fs filename)"

definition load_profile ::
  "unicode_db \<Rightarrow> ustr \<Rightarrow> filesystem \<Rightarrow> pyval \<Rightarrow> py_error + pyval" where
  "load_profile U profiles_dir fs nickname =
     (case load_profile_try U profiles_dir fs nickname of
        Inr v \<Rightarrow> Inr v
      | Inl e \<Rightarrow> Inr PNone)"

definition delete_profile_try ::
  "unicode_db \<Rightarrow> ustr \<Rightarrow> filesystem \<Rightarrow> pyval
     \<Rightarrow> filesystem \<times> (py_error + bool \<times> message)" where
  "delete_profile_try U profiles_dir fs nickname =
     (case get_profile_filename U profiles_dir nickname of
        Inl e \<Rightarrow> (fs, Inl e)
      | Inr filename \<Rightarrow>
          if \<not> path_exists fs filename then (fs, Inr (False, NoProfile nickname))
          else if write_denied fs filename \<or> filename \<in> set (dirs fs) then (fs, Inl OSError)
          else (remove_file filename fs, Inr (True, Deleted nickname)))"

definition delete_profile ::
  "unicode_db \<Rightarrow> ustr \<Rightarrow> filesystem \<Rightarrow> pyval
     \<Rightarrow> py_error + (filesystem \<times> bool \<times> message)" where
  "delete_profile U profiles_dir fs nickname =
     (case delete_profile_try U profiles_dir fs nickname of
        (fs1, Inr r) \<Rightarrow> Inr (fs1, r)
      | (fs1, Inl e) \<Rightarrow> Inr (fs1, (False, DeleteError e)))"

text \<open>\<open>filename.endswith("_profile.json")\<close>\<close>

definition endswith :: "ustr \<Rightarrow> ustr \<Rightarrow> bool" where
  "endswith s suffix = (length suffix \<le> length s \<and> drop (length s - length suffix) s = suffix)"

text \<open>The inner \<open>try\<close> block of \<open>list_profiles\<close>, for one file of the directory.\<close>

definition profile_info :: "filesystem \<Rightarrow> ustr \<Rightarrow> ustr \<Rightarrow> py_error + pyval" where
  "profile_info fs profiles_dir filename =
     ebind (read_json fs (path_join profiles_dir filename)) (\<lambda>profile_data.
     ebind (py_get profile_data (lit ''nickname'') (PStr (lit ''Unknown''))) (\<lambda>nick.
     ebind (py_get profile_data (lit ''hacker_type'') (PStr (lit ''unknown''))) (\<lambda>hacker_type.
     ebind (py_get profile_data (lit ''created_at'') (PStr (lit ''Unknown''))) (\<lambda>created_at.
     ebind (py_get profile_data (lit ''saved_at'') (PStr (lit ''Unknown''))) (\<lambda>saved_at.
     ebind (py_get profile_data (lit ''progress'') (PDict [])) (\<lambda>progress.
     ebind (py_get progress (lit ''current_stage'') (PStr (lit ''unknown''))) (\<lambda>current_stage.
       Inr (PDict [(lit ''nickname'', nick),
                   (lit ''hacker_type'', hacker_type),
                   (lit ''created_at'', created_at),
                   (lit ''saved_at'', saved_at),
                   (lit ''current_stage'', current_stage),
                   (lit ''filename'', PStr filename)]))))))))"

fun collect_profiles :: "filesystem \<Rightarrow> ustr \<Rightarrow> ustr list \<Rightarrow> pyval list" where
  "collect_profiles fs profiles_dir [] = []"
| "collect_profiles fs profiles_dir (filename # rest) =
     (if endswith filename (lit ''_profile.json'')
      then (case profile_info fs profiles_dir filename of
              Inr info \<Rightarrow> info # collect_profiles fs profiles_dir rest
            | Inl e \<Rightarrow> collect_profiles fs profiles_dir rest)
      else collect_profiles fs profiles_dir rest)"

text \<open>
  \<open>profiles.sort(key=lambda x: x["saved_at"], reverse=True)\<close> is the interpreter's
  \<open>list.sort\<close>, taken as the parameter \<open>sort_saved_at\<close>: it gives the list the call
  leaves behind and whether it raised (it raises when two keys cannot be compared).
  Either way \<open>list_profiles\<close> returns the list as the call left it.
\<close>

definition list_profiles ::
  "(pyval list \<Rightarrow> pyval list \<times> bool) \<Rightarrow> ustr \<Rightarrow> filesystem \<Rightarrow> py_error + pyval list" where
  "list_profiles sort_saved_at profiles_dir fs =
     (if \<not> path_exists fs profiles_dir then Inr []
      else (case listdir fs profiles_dir of
              Inl e \<Rightarrow> Inr []
            | Inr names \<Rightarrow> Inr (fst (sort_saved_at (collect_profiles fs profiles_dir names)))))"

section \<open>SettingsManager\<close>

definition default_settings :: pydict where
  "default_settings =
     [(lit ''master_volume'', PInt 70),
      (lit ''sound_effects'', PInt 85),
      (lit ''music_volume'', PInt 60),
      (lit ''luminosity'', PInt 80),
      (lit ''text_size'', PStr (lit ''medium'')),
      (lit ''hints'', PBool True),
      (lit ''difficulty'', PStr (lit ''normal'')),
      (lit ''text_speed'', PStr (lit ''normal'')),
      (lit ''auto_scroll'', PBool True),
      (lit ''show_command_hints'', PBool True),
      (lit ''educational_mode'', PBool True)]"

text \<open>\<open>sub in s\<close> on two strings.\<close>

fun is_substring :: "ustr \<Rightarrow> ustr \<Rightarrow> bool" where
  "is_substring sub [] = (sub = [])"
| "is_substring sub (c # cs) = (take (length sub) (c # cs) = sub \<or> is_substring sub cs)"

text \<open>\<open>key in loaded\<close> and \<open>loaded[key] = v\<close> for a string \<open>key\<close> and any decoded JSON
  value \<open>loaded\<close>.\<close>

definition py_contains :: "pyval \<Rightarrow> ustr \<Rightarrow> py_error + bool" where
  "py_contains loaded key =
     (case loaded of
        PDict d \<Rightarrow> Inr (key \<in> set (map fst d))
      | PList xs \<Rightarrow> Inr (PStr key \<in> set xs)
      | PStr s \<Rightarrow> Inr (is_substring key s)
      | _ \<Rightarrow> Inl TypeError)"

definition py_setitem :: "pyval \<Rightarrow> ustr \<Rightarrow> pyval \<Rightarrow> py_error + pyval" where
  "py_setitem loaded key v =
     (case loaded of
        PDict d \<Rightarrow> Inr (PDict (dict_set key v d))
      | _ \<Rightarrow> Inl TypeError)"

text \<open>\<open>for key in default_settings: if key not in loaded: loaded[key] = default_settings[key]\<close>\<close>

fun merge_defaults :: "pydict \<Rightarrow> pyval \<Rightarrow> py_error + pyval" where
  "merge_defaults [] loaded = Inr loaded"
| "merge_defaults ((key, v) # rest) loaded =
     ebind (py_contains loaded key) (\<lambda>present.
       if present then merge_defaults rest loaded
       else ebind (py_setitem loaded key v) (merge_defaults rest))"

definition load_and_merge :: "filesystem \<Rightarrow> ustr \<Rightarrow> py_error + pyval" where
  "load_and_merge fs path = ebind (read_json fs path) (merge_defaults default_settings)"

definition load_settings :: "filesystem \<Rightarrow> ustr \<Rightarrow> py_error + pyval" where
  "load_settings fs settings_file =
     (if path_exists fs settings_file
      then (case load_and_merge fs settings_file of
              Inr loaded \<Rightarrow> Inr loaded
            | Inl e \<Rightarrow> Inr (PDict default_settings))
      else if path_exists fs (lit ''settings.json'')
      then (case load_and_merge fs (lit ''settings.json'') of
              Inr loaded \<Rightarrow> Inr loaded
            | Inl e \<Rightarrow> Inr (PDict default_settings))
      else Inr (PDict default_settings))"

section \<open>Example inputs\<close>

text \<open>A network of the generator's shape, with one untrusted device and one open Telnet
  port, and a mission constructed on it.\<close>

definition example_network :: network_config where
  "example_network =
     \<lparr>network_id = ''net_1000'', subnet = ''192.168.1.0/24'', gateway = ''192.168.1.1'',
      devices =
        [\<lparr>name = ''Router'', ip = ''192.168.1.1'', mac = ''00:00:00:00:00:01'',
          dtype = ''router'', open_ports = [23, 80], is_trusted = True, isolated = False\<rparr>,
         \<lparr>name = ''Device-Inconnu'', ip = ''192.168.1.50'', mac = ''00:00:00:00:00:05'',
          dtype = ''unknown'', open_ports = [445, 3389], is_trusted = False,
          isolated = False\<rparr>],
      vulns =
        \<lparr>risky_ports =
           [\<lparr>rp_device = ''Router'', rp_ip = ''192.168.1.1'', port = 23,
             service = ''Telnet''\<rparr>],
         untrusted_devices =
           [\<lparr>ud_name = ''Device-Inconnu'', ud_ip = ''192.168.1.50'',
             ud_mac = ''00:00:00:00:00:05''\<rparr>]\<rparr>,
      security_status = ''vulnerable''\<rparr>"

definition example_mission1 :: mission1 where
  "example_mission1 = mission1_init \<lparr>downloaded_tools = None\<rparr> example_network"

text \<open>A database for the examples; they use strings within Latin-1, on which every
  database gives the same results.\<close>

definition plain_db :: unicode_db where
  "plain_db =
     \<lparr>u_isspace = (\<lambda>c. False), u_isalnum = (\<lambda>c. False), u_lower = (\<lambda>s. s),
      u_upper = (\<lambda>s. s), u_int = (\<lambda>s. None)\<rparr>"

text \<open>A Mission 3 with every objective completed.\<close>

definition example_mission3_done :: mission3 where
  "example_mission3_done =
     \<lparr>m3_profile = \<lparr>downloaded_tools = Some [''pcap_analyzer'']\<rparr>,
      m3_objs =
        \<lparr>download_pcap_analyzer = \<lparr>completed = True, required = True\<rparr>,
         open_pcap_analyzer = \<lparr>completed = True, required = True\<rparr>,
         extract_mac_dest = \<lparr>completed = True, required = True\<rparr>,
         extract_mac_src = \<lparr>completed = True, required = True\<rparr>,
         extract_ip_src = \<lparr>completed = True, required = True\<rparr>,
         extract_ip_dest = \<lparr>completed = True, required = True\<rparr>,
         identify_protocol = \<lparr>completed = True, required = True\<rparr>,
         m3_complete_report = \<lparr>completed = True, required = True\<rparr>\<rparr>,
      pcap_analyzer_opened = True\<rparr>"

section \<open>Auxiliary notions\<close>

text \<open>A character below 128 that is not a letter: \<open>str.lower\<close> neither changes it nor
  produces it from another character.\<close>

definition caseless :: "char \<Rightarrow> bool" where
  "caseless c =
     (let n = (of_char c :: nat) in n < 65 \<or> (90 < n \<and> n < 97) \<or> (122 < n \<and> n < 128))"

section \<open>Floating point\<close>

text \<open>
  A Python \<open>float\<close> (IEEE 754 binary64) that is zero or normal is a pair \<open>(m, e)\<close>
  standing for \<open>m * 2^e\<close>, with \<open>m = 0\<close> or \<open>2^52 \<le> \<bar>m\<bar> < 2^53\<close>.
  \<open>int / int\<close> and \<open>float * int\<close> give the exact result rounded to the nearest such
  value, ties to the even mantissa; overflow and subnormal results do not occur for the
  small counts divided here and are not modelled.
\<close>

type_synonym double = "int \<times> int"

function bitlen :: "int \<Rightarrow> nat" where
  "bitlen n = (if n \<le> 0 then 0 else Suc (bitlen (n div 2)))"
  by pat_completeness auto
termination
  by (relation "measure nat") auto

text \<open>\<open>n / d\<close> rounded to the nearest integer, ties to even, for \<open>n \<ge> 0\<close> and
  \<open>d > 0\<close>.\<close>

definition round_half_even :: "int \<Rightarrow> int \<Rightarrow> int" where
  "round_half_even n d =
     (let q = n div d; r = n mod d
      in if 2 * r < d then q
         else if 2 * r > d then q + 1
         else if even q then q else q + 1)"

text \<open>\<open>\<lfloor>log\<^sub>2 (n / d)\<rfloor>\<close> for positive \<open>n\<close> and \<open>d\<close>.\<close>

definition floor_log2 :: "int \<Rightarrow> int \<Rightarrow> int" where
  "floor_log2 n d =
     (let l = int (bitlen n) - int (bitlen d)
      in if (if 0 \<le> l then d * 2 ^ nat l \<le> n else d \<le> n * 2 ^ nat (- l)) then l else l - 1)"

text \<open>The double nearest to the positive rational \<open>n / d\<close>.\<close>

definition round_double :: "int \<Rightarrow> int \<Rightarrow> double" where
  "round_double n d =
     (let e = floor_log2 n d - 52;
          m = (if 0 \<le> e then round_half_even n (d * 2 ^ nat e)
               else round_half_even (n * 2 ^ nat (- e)) d)
      in if m = 2 ^ 53 then (2 ^ 52, e + 1) else (m, e))"

text \<open>The double nearest to \<open>n / d\<close> for any sign of \<open>n\<close> and \<open>d \<noteq> 0\<close>.\<close>

definition round_signed :: "int \<Rightarrow> int \<Rightarrow> double" where
  "round_signed n d =
     (if n = 0 then (0, 0)
      else (case round_double \<bar>n\<bar> \<bar>d\<bar> of
              (m, e) \<Rightarrow> (if (n < 0) = (d < 0) then m else - m, e)))"

text \<open>\<open>a / b\<close> on two \<open>int\<close>s.\<close>

definition true_div :: "int \<Rightarrow> int \<Rightarrow> py_error + double" where
  "true_div a b = (if b = 0 then Inl ZeroDivisionError else Inr (round_signed a b))"

text \<open>\<open>x * k\<close> for a \<open>float\<close> \<open>x\<close> and an \<open>int\<close> \<open>k\<close> that is itself a double.\<close>

definition float_mul_int :: "double \<Rightarrow> int \<Rightarrow> double" where
  "float_mul_int x k =
     (case x of (m, e) \<Rightarrow>
        if 0 \<le> e then round_signed (m * k * 2 ^ nat e) 1
        else round_signed (m * k) (2 ^ nat (- e)))"

text \<open>The double \<open>100.0\<close>, which is \<open>25 * 2^48 * 2^-46\<close>.\<close>

definition hundred :: double where
  "hundred = (7036874417766400, - 46)"

section \<open>Completion percentage\<close>

datatype number = IntNum int | FloatNum double

text \<open>\<open>number == 100\<close>\<close>

definition equals_100 :: "number \<Rightarrow> bool" where
  "equals_100 x = (case x of IntNum i \<Rightarrow> i = 100 | FloatNum f \<Rightarrow> f = hundred)"

definition count_required :: "objective list \<Rightarrow> nat" where
  "count_required objs = length (filter required objs)"

definition count_completed :: "objective list \<Rightarrow> nat" where
  "count_completed objs = length (filter (\<lambda>obj. required obj \<and> completed obj) objs)"

text \<open>The body of \<open>get_completion_percentage\<close>, shared by the three mission classes.\<close>

definition completion_percentage :: "objective list \<Rightarrow> py_error + number" where
  "completion_percentage objs =
     (let total_required = count_required objs;
          n_completed = count_completed objs
      in if total_required > 0
         then ebind (true_div (int n_completed) (int total_required))
                (\<lambda>q. Inr (FloatNum (float_mul_int q 100)))
         else Inr (IntNum 0))"

definition m1_get_completion_percentage :: "mission1 \<Rightarrow> py_error + number" where
  "m1_get_completion_percentage m = completion_percentage (m1_items (m1_objs m))"

definition m2_get_completion_percentage :: "mission2 \<Rightarrow> py_error + number" where
  "m2_get_completion_percentage m = completion_percentage (m2_items (m2_objs m))"

definition m3_get_completion_percentage :: "mission3 \<Rightarrow> py_error + number" where
  "m3_get_completion_percentage m = completion_percentage (m3_items (m3_objs m))"

text \<open>The call returned a number that compares equal to 100.\<close>

definition returns_100 :: "py_error + number \<Rightarrow> bool" where
  "returns_100 r = (case r of Inr x \<Rightarrow> equals_100 x | Inl e \<Rightarrow> False)"

text \<open>The percentage computed from the two counts.\<close>

definition percentage_of :: "nat \<Rightarrow> nat \<Rightarrow> py_error + number" where
  "percentage_of n_completed total_required =
     ebind (true_div (int n_completed) (int total_required))
       (\<lambda>q. Inr (FloatNum (float_mul_int q 100)))"

section \<open>Sequences of method calls\<close>

text \<open>A sequence of \<open>update_progress\<close> calls on Mission 1.\<close>

fun m1_update_all :: "terminal_state list \<Rightarrow> mission1 \<Rightarrow> mission1" where
  "m1_update_all [] m = m"
| "m1_update_all (ts # rest) m = m1_update_all rest (m1_update_progress ts m)"

text \<open>
  The methods of the three mission classes, with their arguments.  The methods that only
  read the mission (\<open>is_mission_complete\<close>, \<open>get_completion_percentage\<close>,
  \<open>get_mission_briefing\<close>, \<open>get_hint\<close>, the getters, \<open>generate_report\<close>,
  \<open>validate_answer\<close>) and \<open>award_completion_rewards\<close>, which writes the player's
  progress and nothing of the mission, leave the mission as it is.
\<close>

datatype m1_call =
    M1_check_scan_network_complete terminal_state
  | M1_check_identify_devices_complete terminal_state
  | M1_check_find_risky_ports_complete terminal_state
  | M1_check_isolate_threats_complete "string list"
  | M1_check_block_risky_ports_complete "int list"
  | M1_check_final_audit_complete "string list" "int list"
  | M1_update_progress terminal_state
  | M1_is_mission_complete
  | M1_get_completion_percentage
  | M1_get_mission_briefing
  | M1_award_completion_rewards
  | M1_get_hint string
  | M1_get_network_config
  | M1_get_packets

fun m1_step :: "m1_call \<Rightarrow> mission1 \<Rightarrow> mission1" where
  "m1_step (M1_check_scan_network_complete ts) m = fst (check_scan_network_complete m)"
| "m1_step (M1_check_identify_devices_complete ts) m = fst (check_identify_devices_complete m)"
| "m1_step (M1_check_find_risky_ports_complete ts) m = fst (check_find_risky_ports_complete m)"
| "m1_step (M1_check_isolate_threats_complete i) m = fst (check_isolate_threats_complete i m)"
| "m1_step (M1_check_block_risky_ports_complete b) m =
     fst (check_block_risky_ports_complete b m)"
| "m1_step (M1_check_final_audit_complete i b) m = fst (check_final_audit_complete i b m)"
| "m1_step (M1_update_progress ts) m = m1_update_progress ts m"
| "m1_step _ m = m"

fun m1_run :: "m1_call list \<Rightarrow> mission1 \<Rightarrow> mission1" where
  "m1_run [] m = m"
| "m1_run (c # cs) m = m1_run cs (m1_step c m)"

datatype m2_call =
    M2_check_wireshark_downloaded
  | M2_mark_wireshark_opened
  | M2_submit_suspicious_ip string
  | M2_report_threat_found string
  | M2_check_report_complete
  | M2_update_progress
  | M2_is_mission_complete
  | M2_get_completion_percentage
  | M2_get_mission_briefing
  | M2_award_completion_rewards
  | M2_get_hint string
  | M2_get_threat_info string
  | M2_get_found_threats
  | M2_get_remaining_threats
  | M2_generate_report

fun m2_step :: "m2_call \<Rightarrow> mission2 \<Rightarrow> mission2" where
  "m2_step M2_check_wireshark_downloaded m = fst (check_wireshark_downloaded m)"
| "m2_step M2_mark_wireshark_opened m = mark_wireshark_opened m"
| "m2_step (M2_submit_suspicious_ip a) m = fst (submit_suspicious_ip a m)"
| "m2_step (M2_report_threat_found t) m = fst (report_threat_found t m)"
| "m2_step M2_check_report_complete m = fst (check_report_complete m)"
| "m2_step M2_update_progress m = m2_update_progress m"
| "m2_step _ m = m"

text \<open>Each call comes with the content of the shared profile dictionary at that moment,
  which the rest of the game may have changed since the call before.\<close>

fun m2_run :: "(profile_data \<times> m2_call) list \<Rightarrow> mission2 \<Rightarrow> mission2" where
  "m2_run [] m = m"
| "m2_run ((p, c) # cs) m = m2_run cs (m2_step c (m\<lparr>m2_profile := p\<rparr>))"

datatype m3_call =
    M3_check_pcap_analyzer_downloaded
  | M3_mark_pcap_analyzer_opened
  | M3_validate_answer ustr ustr
  | M3_is_mission_complete
  | M3_get_completion_percentage
  | M3_get_mission_briefing
  | M3_award_completion_rewards
  | M3_get_hint string

fun m3_step :: "m3_call \<Rightarrow> mission3 \<Rightarrow> mission3" where
  "m3_step M3_check_pcap_analyzer_downloaded m = fst (check_pcap_analyzer_downloaded m)"
| "m3_step M3_mark_pcap_analyzer_opened m = mark_pcap_analyzer_opened m"
| "m3_step _ m = m"

fun m3_run :: "(profile_data \<times> m3_call) list \<Rightarrow> mission3 \<Rightarrow> mission3" where
  "m3_run [] m = m"
| "m3_run ((p, c) # cs) m = m3_run cs (m3_step c (m\<lparr>m3_profile := p\<rparr>))"

text \<open>Position by position, an objective completed in the first list is completed in the
  second.\<close>

definition stays_completed :: "objective list \<Rightarrow> objective list \<Rightarrow> bool" where
  "stays_completed before after = list_all2 (\<lambda>a b. completed a \<longrightarrow> completed b) before after"

text \<open>A call leaves the two objectives that \<open>update_progress\<close> never checks as they
  were.\<close>

definition untouched :: "mission1 \<Rightarrow> mission1 \<Rightarrow> bool" where
  "untouched m m' \<longleftrightarrow>
     find_risky_ports (m1_objs m') = find_risky_ports (m1_objs m)
     \<and> analyze_packets (m1_objs m') = analyze_packets (m1_objs m)"

text \<open>Objective completion does not go back from one mission state to another.\<close>

definition m1_mono :: "mission1 \<Rightarrow> mission1 \<Rightarrow> bool" where
  "m1_mono m m' = stays_completed (m1_items (m1_objs m)) (m1_items (m1_objs m'))"

definition m2_mono :: "mission2 \<Rightarrow> mission2 \<Rightarrow> bool" where
  "m2_mono m m' = stays_completed (m2_items (m2_objs m)) (m2_items (m2_objs m'))"

definition m3_mono :: "mission3 \<Rightarrow> mission3 \<Rightarrow> bool" where
  "m3_mono m m' = stays_completed (m3_items (m3_objs m)) (m3_items (m3_objs m'))"

text \<open>A Mission 2 on which \<open>check_wireshark_downloaded\<close> has found Wireshark in the
  profile.\<close>

definition example_mission2 :: mission2 where
  "example_mission2 =
     fst (check_wireshark_downloaded (mission2_init \<lparr>downloaded_tools = Some [''wireshark'']\<rparr>))"

section \<open>Properties\<close>

subsection \<open>The final audit\<close>

text \<open>
  C3.  For every list of isolated MACs and every list of blocked ports,
  \<open>check_final_audit_complete\<close> returns True and sets the \<open>final_audit\<close> flag exactly
  when every untrusted device's MAC is in the isolated list and every risky-port entry's
  port is in the blocked list; otherwise it returns False and leaves the mission, and so
  the flag, as it was.
\<close>

theorem check_final_audit_complete_iff:
  "(if (\<forall>device \<in> set (untrusted_devices (vulns (m1_network_config m))).
          ud_mac device \<in> set isolated_devices)
       \<and> (\<forall>vuln \<in> set (risky_ports (vulns (m1_network_config m))). port vuln \<in> set blocked)
    then snd (check_final_audit_complete isolated_devices blocked m) = True
       \<and> completed (final_audit (m1_objs (fst (check_final_audit_complete isolated_devices blocked m))))
    else snd (check_final_audit_complete isolated_devices blocked m) = False
       \<and> fst (check_final_audit_complete isolated_devices blocked m) = m)"
  by (simp add: check_final_audit_complete_def Let_def list_all_iff)

theorem check_final_audit_complete_witness:
  "snd (check_final_audit_complete [''00:00:00:00:00:05''] [23] example_mission1) = True
   \<and> completed (final_audit (m1_objs
         (fst (check_final_audit_complete [''00:00:00:00:00:05''] [23] example_mission1))))
   \<and> snd (check_final_audit_complete [] [23] example_mission1) = False
   \<and> fst (check_final_audit_complete [] [23] example_mission1) = example_mission1"
  using check_final_audit_complete_iff [of example_mission1 "[''00:00:00:00:00:05'']" "[23]"]
    check_final_audit_complete_iff [of example_mission1 "[]" "[23]"]
  by (simp add: example_mission1_def example_network_def mission1_init_def)

subsection \<open>Case and whitespace\<close>

lemma of_char_lower_char:
  "(of_char (lower_char c) :: nat) =
     (let n = of_char c in
      if (65 \<le> n \<and> n \<le> 90) \<or> (192 \<le> n \<and> n \<le> 214) \<or> (216 \<le> n \<and> n \<le> 222)
      then n + 32 else n)"
  by (auto simp: lower_char_def Let_def)

lemma isspace_lower_char: "py_isspace (lower_char c) = py_isspace c"
  unfolding py_isspace_def of_char_lower_char by (auto simp: Let_def)

lemma dropWhile_isspace_lower:
  "dropWhile py_isspace (map lower_char s) = map lower_char (dropWhile py_isspace s)"
  by (induction s) (simp_all add: isspace_lower_char)

lemma lower_strip: "py_lower (py_strip s) = py_strip (py_lower s)"
  by (simp add: py_lower_def py_strip_def rev_map dropWhile_isspace_lower)

lemma lower_char_caseless: "caseless d \<Longrightarrow> lower_char c = d \<longleftrightarrow> c = d"
proof
  assume d: "caseless d" and e: "lower_char c = d"
  have "(of_char (lower_char c) :: nat) = of_char d" using e by simp
  then have "(of_char c :: nat) = of_char d"
    using d unfolding of_char_lower_char caseless_def by (auto simp: Let_def split: if_splits)
  then show "c = d" by simp
next
  assume d: "caseless d" and "c = d"
  then show "lower_char c = d" by (auto simp: lower_char_def caseless_def Let_def)
qed

lemma py_lower_caseless: "list_all caseless e \<Longrightarrow> py_lower x = e \<longleftrightarrow> x = e"
proof (induction e arbitrary: x)
  case Nil then show ?case by (simp add: py_lower_def)
next
  case (Cons d e)
  then show ?case by (cases x) (auto simp: py_lower_def lower_char_caseless)
qed

lemma caseless_compare:
  assumes "list_all caseless e"
  shows "x = e \<longleftrightarrow> py_lower x = py_lower e"
proof -
  have "py_lower e = e" using py_lower_caseless [OF assms, of e] by simp
  then show ?thesis using py_lower_caseless [OF assms, of x] by simp
qed

lemma upper_char_cases: "upper_char c = [83, 83] \<or> (\<exists>a. upper_char c = [a])"
  by (simp add: upper_char_def Let_def)

lemma upper_lower_char:
  assumes "65 \<le> k" "k \<le> 90"
  shows "upper_char c = [k] \<longleftrightarrow> lower_char c = char_of (k + 32)"
proof -
  define n where "n = (of_char c :: nat)"
  have lt: "n < 256" unfolding n_def by simp
  have l: "(of_char (lower_char c) :: nat) =
      (if (65 \<le> n \<and> n \<le> 90) \<or> (192 \<le> n \<and> n \<le> 214) \<or> (216 \<le> n \<and> n \<le> 222)
       then n + 32 else n)"
    unfolding n_def of_char_lower_char Let_def ..
  have u: "upper_char c =
      (if n = 181 then [924]
       else if n = 223 then [83, 83]
       else if n = 255 then [376]
       else if (97 \<le> n \<and> n \<le> 122) \<or> (224 \<le> n \<and> n \<le> 246) \<or> (248 \<le> n \<and> n \<le> 254)
       then [n - 32] else [n])"
    unfolding n_def upper_char_def Let_def ..
  have "lower_char c = char_of (k + 32)
          \<longleftrightarrow> (of_char (lower_char c) :: nat) = of_char (char_of (k + 32))"
    by (metis char_of_char)
  also have "\<dots> \<longleftrightarrow> (of_char (lower_char c) :: nat) = k + 32"
    using assms by simp
  also have "\<dots> \<longleftrightarrow> upper_char c = [k]"
    unfolding l u using assms lt by (simp split: if_splits) presburger
  finally show ?thesis by simp
qed

lemma py_upper_lower:
  "list_all (\<lambda>k. 65 \<le> k \<and> k \<le> 90 \<and> k \<noteq> 83) t \<Longrightarrow>
     py_upper x = t \<longleftrightarrow> py_lower x = map (\<lambda>k. char_of (k + 32)) t"
proof (induction x arbitrary: t)
  case Nil
  then show ?case by (auto simp: py_upper_def py_lower_def)
next
  case (Cons c cs)
  show ?case
  proof (cases t)
    case Nil
    then show ?thesis using upper_char_cases [of c] by (auto simp: py_upper_def py_lower_def)
  next
    case (Cons k ks)
    with Cons.prems have k: "65 \<le> k" "k \<le> 90" "k \<noteq> 83"
      and ks: "list_all (\<lambda>k. 65 \<le> k \<and> k \<le> 90 \<and> k \<noteq> 83) ks" by simp_all
    have ih: "py_upper cs = ks \<longleftrightarrow> py_lower cs = map (\<lambda>k. char_of (k + 32)) ks"
      using Cons.IH [OF ks] .
    have "py_upper (c # cs) = k # ks \<longleftrightarrow> upper_char c = [k] \<and> py_upper cs = ks"
      using upper_char_cases [of c] k by (auto simp: py_upper_def)
    then show ?thesis using ih upper_lower_char [OF k(1,2), of c] Cons
      by (simp add: py_lower_def)
  qed
qed

lemma router_name_caseless:
  "py_upper x = py_upper ''home'' \<longleftrightarrow> py_lower x = py_lower ''home''"
proof -
  have u: "py_upper ''home'' = [72, 79, 77, 69]" by code_simp
  have l: "py_lower ''home'' = map (\<lambda>k. char_of (k + 32)) [72, 79, 77, 69::nat]" by code_simp
  show ?thesis unfolding u l by (rule py_upper_lower) simp
qed

subsection \<open>Strings within Latin-1\<close>

lemma lit_eq_iff [simp]: "lit a = lit b \<longleftrightarrow> a = b"
proof
  assume "lit a = lit b"
  then have "map (char_of :: nat \<Rightarrow> char) (lit a) = map char_of (lit b)" by simp
  then show "a = b" by (simp add: lit_def comp_def)
qed simp

lemma chars_of_lit [simp]: "chars_of (lit s) = s"
  by (simp add: chars_of_def lit_def comp_def)

lemma latin1_lit [simp]: "latin1 (lit s)"
  by (simp add: latin1_def lit_def list_all_iff)

lemma lit_chars_of: "latin1 s \<Longrightarrow> lit (chars_of s) = s"
  by (induction s) (simp_all add: latin1_def lit_def chars_of_def)

lemma isspace_of_char: "isspace U (of_char c) = py_isspace c"
  by (simp add: isspace_def)

lemma dropWhile_isspace_lit:
  "dropWhile (isspace U) (lit s) = lit (dropWhile py_isspace s)"
  by (induction s) (simp_all add: lit_def isspace_of_char)

lemma strip_lit: "strip U (lit s) = lit (py_strip s)"
proof -
  have r: "rev (lit s) = lit (rev s)" for s by (simp add: lit_def rev_map)
  show ?thesis
    unfolding strip_def py_strip_def dropWhile_isspace_lit r ..
qed

lemma lower_lit: "lower U (lit s) = lit (py_lower s)"
  by (simp add: lower_def)

lemma upper_lit: "upper U (lit s) = py_upper s"
  by (simp add: upper_def)

lemma int_of_str_lit: "int_of_str U (lit s) = py_int s"
  by (simp add: int_of_str_def)

subsection \<open>Answer validation\<close>

lemma report_threat_found_exact:
  "snd (report_threat_found t m) \<longleftrightarrow>
     t \<in> {''telnet_scan'', ''port_scan'', ''discovery'', ''printer_exploit'', ''exfiltration''}"
  by (simp add: report_threat_found_def threat_types_def Let_def)

lemma generate_network_fields:
  "p_ip_address (player (generate_network nick)) = lit ''192.168.1.120''"
  "r_ip_address (router (generate_network nick)) = lit ''192.168.1.1''"
  "p_subnet_mask (player (generate_network nick)) = lit ''255.255.255.0''"
  "r_hostname (router (generate_network nick)) = lit ''home''"
  "total_devices (network (generate_network nick)) = 6"
  by (simp_all add: generate_network_def Let_def generate_fixed_devices_def)

lemma validate_ip_address:
  "submitted (lit ''ip_address'') = Some v \<Longrightarrow>
     validate_mission1_data U nd submitted (lit ''ip_address'')
       = Some (strip U v = p_ip_address (player nd))"
  by (simp add: validate_mission1_data_def Let_def split: option.splits)

lemma validate_gateway:
  "submitted (lit ''gateway'') = Some v \<Longrightarrow>
     validate_mission1_data U nd submitted (lit ''gateway'')
       = Some (strip U v = r_ip_address (router nd))"
  by (simp add: validate_mission1_data_def Let_def split: option.splits)

lemma validate_subnet_mask:
  "submitted (lit ''subnet_mask'') = Some v \<Longrightarrow>
     validate_mission1_data U nd submitted (lit ''subnet_mask'')
       = Some (strip U v = p_subnet_mask (player nd))"
  by (simp add: validate_mission1_data_def Let_def split: option.splits)

lemma validate_router_name:
  "submitted (lit ''router_name'') = Some v \<Longrightarrow>
     validate_mission1_data U nd submitted (lit ''router_name'')
       = Some (upper U (strip U v) = upper U (r_hostname (router nd)))"
  by (simp add: validate_mission1_data_def Let_def split: option.splits)

lemma validate_device_count:
  "submitted (lit ''device_count'') = Some v \<Longrightarrow>
     validate_mission1_data U nd submitted (lit ''device_count'')
       = Some (int_of_str U v = Some (int (total_devices (network nd))))"
  by (auto simp add: validate_mission1_data_def Let_def split: option.splits)

lemma upper_home: "upper U (lit ''home'') = lit ''HOME''"
  unfolding upper_lit by code_simp

lemma latin1_strip: "latin1 s \<Longrightarrow> latin1 (strip U s)"
proof -
  assume "latin1 s"
  then have "lit (chars_of s) = s" by (rule lit_chars_of)
  then have "strip U s = lit (py_strip (chars_of s))" using strip_lit [of U "chars_of s"] by simp
  then show ?thesis by simp
qed

lemma exact_is_caseless:
  assumes "latin1 v" "list_all caseless e"
  shows "(strip U v = lit e) = (lower U (strip U v) = lower U (lit e))"
proof -
  have v: "strip U v = lit (py_strip (chars_of v))"
    using strip_lit [of U "chars_of v"] lit_chars_of [OF assms(1)] by simp
  show ?thesis unfolding v lower_lit using caseless_compare [OF assms(2)] by simp
qed

lemma upper_is_caseless:
  assumes "latin1 v"
  shows "(upper U (strip U v) = lit ''HOME'') = (lower U (strip U v) = lower U (lit ''home''))"
proof -
  have v: "strip U v = lit (py_strip (chars_of v))"
    using strip_lit [of U "chars_of v"] lit_chars_of [OF assms(1)] by simp
  have h: "lit ''HOME'' = py_upper ''home''" using upper_home [of U] upper_lit [of U] by simp
  show ?thesis unfolding v lower_lit upper_lit h using router_name_caseless by simp
qed

lemma lower_strip_latin1:
  assumes "latin1 s" "latin1 s'" "lower U s = lower U s'"
  shows "lower U (strip U s) = lower U (strip U s')"
proof -
  define a where "a = chars_of s"
  define b where "b = chars_of s'"
  have s: "s = lit a" and s': "s' = lit b"
    unfolding a_def b_def using assms(1,2) by (simp_all add: lit_chars_of)
  have "py_lower a = py_lower b" using assms(3) unfolding s s' lower_lit by simp
  then show ?thesis unfolding s s' strip_lit lower_lit lower_strip by simp
qed

text \<open>
  C1 as stated fails.  \<open>validate_answer\<close> accepts a MAC address written with dashes,
  which differs from the expected value by more than case; \<open>validate_mission1_data\<close>
  accepts the device count \<open>06\<close>, which is not the expected \<open>6\<close> in any case;
  \<open>report_threat_found\<close> looks the submission up among the keys of \<open>threat_types\<close>,
  so a change of case turns an accepted threat into a rejected one.
\<close>

theorem answer_validation_counterexample:
  "validate_answer plain_db (lit ''dest_mac'') (lit ''00-1e-ec-26-d2-ac'')
   \<and> lower plain_db (strip plain_db (lit ''00-1e-ec-26-d2-ac''))
       \<noteq> lower plain_db (strip plain_db (lit ''00:1e:ec:26:d2:ac''))
   \<and> validate_mission1_data plain_db (generate_network (lit ''Neo''))
        [lit ''device_count'' \<mapsto> lit ''06''] (lit ''device_count'') = Some True
   \<and> lower plain_db (strip plain_db (lit ''06'')) \<noteq> lower plain_db (strip plain_db (lit ''6''))
   \<and> snd (report_threat_found ''telnet_scan'' (mission2_init \<lparr>downloaded_tools = None\<rparr>))
   \<and> \<not> snd (report_threat_found ''TELNET_SCAN'' (mission2_init \<lparr>downloaded_tools = None\<rparr>))
   \<and> py_lower (py_strip ''TELNET_SCAN'') = py_lower (py_strip ''telnet_scan'')"
proof -
  have m: "map_of correct_answers (lit ''dest_mac'') = Some (lit ''00:1e:ec:26:d2:ac'')"
    by (simp add: correct_answers_def)
  have e1: "py_replace (45::nat) 58 (lit (py_lower (py_strip ''00-1e-ec-26-d2-ac'')))
          = py_replace 45 58 (lit (py_lower (py_strip ''00:1e:ec:26:d2:ac'')))"
    by code_simp
  have a: "validate_answer plain_db (lit ''dest_mac'') (lit ''00-1e-ec-26-d2-ac'')"
    using e1 by (simp add: validate_answer_def m Let_def strip_lit lower_lit dash_to_colon_def)
  have e2: "py_lower (py_strip ''00-1e-ec-26-d2-ac'') \<noteq> py_lower (py_strip ''00:1e:ec:26:d2:ac'')"
    by code_simp
  have b: "lower plain_db (strip plain_db (lit ''00-1e-ec-26-d2-ac''))
       \<noteq> lower plain_db (strip plain_db (lit ''00:1e:ec:26:d2:ac''))"
    unfolding strip_lit lower_lit using e2 by simp
  have e3: "py_int ''06'' = Some 6" by code_simp
  have s: "[lit ''device_count'' \<mapsto> lit ''06''] (lit ''device_count'') = Some (lit ''06'')"
    by simp
  have c: "validate_mission1_data plain_db (generate_network (lit ''Neo''))
        [lit ''device_count'' \<mapsto> lit ''06''] (lit ''device_count'') = Some True"
    unfolding validate_device_count [of "[lit ''device_count'' \<mapsto> lit ''06'']" "lit ''06''", OF s]
      generate_network_fields int_of_str_lit e3 by simp
  have e4: "py_lower (py_strip ''06'') \<noteq> py_lower (py_strip ''6'')" by code_simp
  have d: "lower plain_db (strip plain_db (lit ''06'')) \<noteq> lower plain_db (strip plain_db (lit ''6''))"
    unfolding strip_lit lower_lit using e4 by simp
  have e5: "py_lower (py_strip ''TELNET_SCAN'') = py_lower (py_strip ''telnet_scan'')"
    by code_simp
  show ?thesis using a b c d e5 by (simp add: report_threat_found_exact)
qed

text \<open>
  C1, amended.  \<open>validate_answer\<close> accepts a submission exactly when, trimmed and
  lower-cased, it equals the expected value of the field, trimmed and lower-cased; for the
  fields \<open>dest_mac\<close> and \<open>src_mac\<close> both sides first have \<open>-\<close> replaced by \<open>:\<close>; an
  unknown field is rejected; submissions whose trimmed forms agree up to case, and
  submissions within Latin-1 that agree up to case, get the same result.
  \<open>report_threat_found\<close> accepts exactly the five threat keys, compared as they are.
  \<open>validate_mission1_data\<close> accepts \<open>ip_address\<close>, \<open>gateway\<close> and \<open>subnet_mask\<close>
  exactly when the trimmed submission is the expected value, \<open>router_name\<close> exactly when
  the trimmed submission in upper case is \<open>HOME\<close>, which for a submission within Latin-1
  is equality with the expected value without regard to case, and \<open>device_count\<close>
  exactly when \<open>int\<close> parses it to 6.
\<close>

theorem answer_validation:
  "(map_of correct_answers k = Some c \<longrightarrow> k \<notin> {lit ''dest_mac'', lit ''src_mac''} \<longrightarrow>
      validate_answer U k s = (lower U (strip U s) = lower U (strip U c)))
   \<and> (map_of correct_answers k = Some c \<longrightarrow> k \<in> {lit ''dest_mac'', lit ''src_mac''} \<longrightarrow>
      validate_answer U k s
        = (dash_to_colon (lower U (strip U s)) = dash_to_colon (lower U (strip U c))))
   \<and> (map_of correct_answers k = None \<longrightarrow> \<not> validate_answer U k s)
   \<and> (lower U (strip U s) = lower U (strip U s') \<longrightarrow>
        validate_answer U k s = validate_answer U k s')
   \<and> (latin1 s \<and> latin1 s' \<and> lower U s = lower U s' \<longrightarrow>
        validate_answer U k s = validate_answer U k s')
   \<and> (snd (report_threat_found t m) \<longleftrightarrow>
        t \<in> {''telnet_scan'', ''port_scan'', ''discovery'', ''printer_exploit'',
             ''exfiltration''})
   \<and> (submitted (lit ''ip_address'') = Some v1 \<longrightarrow>
        validate_mission1_data U (generate_network nick) submitted (lit ''ip_address'')
          = Some (strip U v1 = lit ''192.168.1.120''))
   \<and> (submitted (lit ''gateway'') = Some v2 \<longrightarrow>
        validate_mission1_data U (generate_network nick) submitted (lit ''gateway'')
          = Some (strip U v2 = lit ''192.168.1.1''))
   \<and> (submitted (lit ''subnet_mask'') = Some v3 \<longrightarrow>
        validate_mission1_data U (generate_network nick) submitted (lit ''subnet_mask'')
          = Some (strip U v3 = lit ''255.255.255.0''))
   \<and> (latin1 v \<and> e \<in> {''192.168.1.120'', ''192.168.1.1'', ''255.255.255.0''} \<longrightarrow>
        (strip U v = lit e) = (lower U (strip U v) = lower U (lit e)))
   \<and> (submitted (lit ''router_name'') = Some v4 \<longrightarrow>
        validate_mission1_data U (generate_network nick) submitted (lit ''router_name'')
          = Some (upper U (strip U v4) = lit ''HOME''))
   \<and> (latin1 v \<longrightarrow>
        (upper U (strip U v) = lit ''HOME'') = (lower U (strip U v) = lower U (lit ''home'')))
   \<and> (submitted (lit ''device_count'') = Some v5 \<longrightarrow>
        validate_mission1_data U (generate_network nick) submitted (lit ''device_count'')
          = Some (int_of_str U v5 = Some 6))"
proof -
  have a: "map_of correct_answers k = Some c \<longrightarrow> k \<notin> {lit ''dest_mac'', lit ''src_mac''} \<longrightarrow>
      validate_answer U k s = (lower U (strip U s) = lower U (strip U c))"
    by (simp add: validate_answer_def Let_def)
  have b: "map_of correct_answers k = Some c \<longrightarrow> k \<in> {lit ''dest_mac'', lit ''src_mac''} \<longrightarrow>
      validate_answer U k s
        = (dash_to_colon (lower U (strip U s)) = dash_to_colon (lower U (strip U c)))"
    by (auto simp add: validate_answer_def Let_def)
  have c: "map_of correct_answers k = None \<longrightarrow> \<not> validate_answer U k s"
    by (simp add: validate_answer_def)
  have d: "lower U (strip U s) = lower U (strip U s') \<longrightarrow>
        validate_answer U k s = validate_answer U k s'"
    by (simp add: validate_answer_def Let_def split: option.splits)
  have d': "latin1 s \<and> latin1 s' \<and> lower U s = lower U s' \<longrightarrow>
        validate_answer U k s = validate_answer U k s'"
    using d lower_strip_latin1 [of s s' U] by blast
  have f1: "submitted (lit ''ip_address'') = Some v1 \<longrightarrow>
        validate_mission1_data U (generate_network nick) submitted (lit ''ip_address'')
          = Some (strip U v1 = lit ''192.168.1.120'')"
    using validate_ip_address [of submitted v1 U "generate_network nick"]
    by (simp add: generate_network_fields)
  have f2: "submitted (lit ''gateway'') = Some v2 \<longrightarrow>
        validate_mission1_data U (generate_network nick) submitted (lit ''gateway'')
          = Some (strip U v2 = lit ''192.168.1.1'')"
    using validate_gateway [of submitted v2 U "generate_network nick"]
    by (simp add: generate_network_fields)
  have f3: "submitted (lit ''subnet_mask'') = Some v3 \<longrightarrow>
        validate_mission1_data U (generate_network nick) submitted (lit ''subnet_mask'')
          = Some (strip U v3 = lit ''255.255.255.0'')"
    using validate_subnet_mask [of submitted v3 U "generate_network nick"]
    by (simp add: generate_network_fields)
  have cl: "list_all caseless ''192.168.1.120''" "list_all caseless ''192.168.1.1''"
    "list_all caseless ''255.255.255.0''"
    by code_simp+
  have f4: "latin1 v \<and> e \<in> {''192.168.1.120'', ''192.168.1.1'', ''255.255.255.0''} \<longrightarrow>
        (strip U v = lit e) = (lower U (strip U v) = lower U (lit e))"
    using exact_is_caseless [of v _ U] cl by blast
  have f5: "submitted (lit ''router_name'') = Some v4 \<longrightarrow>
        validate_mission1_data U (generate_network nick) submitted (lit ''router_name'')
          = Some (upper U (strip U v4) = lit ''HOME'')"
    using validate_router_name [of submitted v4 U "generate_network nick"]
    by (simp add: generate_network_fields upper_home)
  have f6: "latin1 v \<longrightarrow>
        (upper U (strip U v) = lit ''HOME'') = (lower U (strip U v) = lower U (lit ''home''))"
    using upper_is_caseless [of v U] by blast
  have f7: "submitted (lit ''device_count'') = Some v5 \<longrightarrow>
        validate_mission1_data U (generate_network nick) submitted (lit ''device_count'')
          = Some (int_of_str U v5 = Some 6)"
    using validate_device_count [of submitted v5 U "generate_network nick"]
    by (simp add: generate_network_fields)
  show ?thesis
    using a b c d d' report_threat_found_exact [of t m] f1 f2 f3 f4 f5 f6 f7
    by blast
qed

theorem answer_validation_witness:
  "validate_answer plain_db (lit ''protocol'') (lit '' tcp '')
   \<and> validate_answer plain_db (lit ''src_mac'') (lit ''26-02-06-49-6B-31'')
   \<and> \<not> validate_answer plain_db (lit ''port'') (lit ''80'')
   \<and> validate_answer plain_db (lit ''link_type'') (lit ''ETHERNET'')
       = validate_answer plain_db (lit ''link_type'') (lit ''ethernet'')
   \<and> snd (report_threat_found ''discovery'' (mission2_init \<lparr>downloaded_tools = None\<rparr>))
   \<and> validate_mission1_data plain_db (generate_network (lit ''Neo''))
        [lit ''ip_address'' \<mapsto> lit '' 192.168.1.120'', lit ''router_name'' \<mapsto> lit ''Home'']
        (lit ''router_name'') = Some True
   \<and> validate_mission1_data plain_db (generate_network (lit ''Neo''))
        [lit ''ip_address'' \<mapsto> lit '' 192.168.1.120'', lit ''router_name'' \<mapsto> lit ''Home'']
        (lit ''ip_address'') = Some True"
proof -
  let ?sub = "[lit ''ip_address'' \<mapsto> lit '' 192.168.1.120'', lit ''router_name'' \<mapsto> lit ''Home'']"
  let ?m = "mission2_init \<lparr>downloaded_tools = None\<rparr>"
  have p: "map_of correct_answers (lit ''protocol'') = Some (lit ''TCP'')"
    and q: "map_of correct_answers (lit ''src_mac'') = Some (lit ''26:02:06:49:6b:31'')"
    and r: "map_of correct_answers (lit ''port'') = None"
    by (simp_all add: correct_answers_def)
  have e1: "py_lower (py_strip '' tcp '') = py_lower (py_strip ''TCP'')" by code_simp
  have e2: "py_replace (45::nat) 58 (lit (py_lower (py_strip ''26-02-06-49-6B-31'')))
            = py_replace 45 58 (lit (py_lower (py_strip ''26:02:06:49:6b:31'')))"
    by code_simp
  have e3: "py_lower ''ETHERNET'' = py_lower ''ethernet''" by code_simp
  have e4: "py_upper (py_strip ''Home'') = lit ''HOME''" by code_simp
  have e5: "py_strip '' 192.168.1.120'' = ''192.168.1.120''" by code_simp
  have s1: "?sub (lit ''router_name'') = Some (lit ''Home'')"
    and s2: "?sub (lit ''ip_address'') = Some (lit '' 192.168.1.120'')" by simp_all
  have i1: "validate_answer plain_db (lit ''protocol'') (lit '' tcp '')"
    using answer_validation [where k = "lit ''protocol''" and c = "lit ''TCP''"
        and s = "lit '' tcp ''" and U = plain_db] p e1
    by (simp add: strip_lit lower_lit)
  have i2: "validate_answer plain_db (lit ''src_mac'') (lit ''26-02-06-49-6B-31'')"
    using answer_validation [where k = "lit ''src_mac''" and c = "lit ''26:02:06:49:6b:31''"
        and s = "lit ''26-02-06-49-6B-31''" and U = plain_db] q e2
    by (simp add: strip_lit lower_lit dash_to_colon_def)
  have i3: "\<not> validate_answer plain_db (lit ''port'') (lit ''80'')"
    using answer_validation [where k = "lit ''port''" and s = "lit ''80''" and U = plain_db] r
    by simp
  have i4: "validate_answer plain_db (lit ''link_type'') (lit ''ETHERNET'')
       = validate_answer plain_db (lit ''link_type'') (lit ''ethernet'')"
    using answer_validation [where k = "lit ''link_type''" and s = "lit ''ETHERNET''"
        and s' = "lit ''ethernet''" and U = plain_db] e3
    by (simp add: lower_lit)
  have i5: "snd (report_threat_found ''discovery'' ?m)"
    using answer_validation [where t = "''discovery''" and m = ?m] by simp
  have i6: "validate_mission1_data plain_db (generate_network (lit ''Neo'')) ?sub
        (lit ''router_name'') = Some True"
    using answer_validation [where submitted = ?sub and ?v4.0 = "lit ''Home''"
        and U = plain_db and nick = "lit ''Neo''"] s1 e4
    by (simp add: strip_lit upper_lit)
  have i7: "validate_mission1_data plain_db (generate_network (lit ''Neo'')) ?sub
        (lit ''ip_address'') = Some True"
    using answer_validation [where submitted = ?sub and ?v1.0 = "lit '' 192.168.1.120''"
        and U = plain_db and nick = "lit ''Neo''"] s2 e5
    by (simp add: strip_lit)
  show ?thesis using i1 i2 i3 i4 i5 i6 i7 by blast
qed

subsection \<open>Mission 1: what update\_progress never completes\<close>

lemma untouched_scan: "untouched m (fst (check_scan_network_complete m))"
  by (simp add: untouched_def check_scan_network_complete_def)

lemma untouched_identify: "untouched m (fst (check_identify_devices_complete m))"
  by (simp add: untouched_def check_identify_devices_complete_def Let_def)

lemma untouched_isolate: "untouched m (fst (check_isolate_threats_complete i m))"
  by (simp add: untouched_def check_isolate_threats_complete_def Let_def)

lemma untouched_block: "untouched m (fst (check_block_risky_ports_complete b m))"
  by (simp add: untouched_def check_block_risky_ports_complete_def)

lemma untouched_audit: "untouched m (fst (check_final_audit_complete i b m))"
  by (simp add: untouched_def check_final_audit_complete_def Let_def)

lemma untouched_trans [trans]: "untouched a b \<Longrightarrow> untouched b c \<Longrightarrow> untouched a c"
  by (simp add: untouched_def)

lemma untouched_tracked:
  "untouched m (m\<lparr>commands_used := c, devices_discovered := d\<rparr>)"
  by (simp add: untouched_def)

lemma untouched_update_progress: "untouched m (m1_update_progress ts m)"
proof -
  define i where "i = get_or (ts_isolated_devices ts) []"
  define b where "b = get_or (ts_blocked_ports ts) []"
  define m0 where "m0 = m\<lparr>commands_used := get_or (commands_history ts) [],
                 devices_discovered := get_or (ts_devices_discovered ts) []\<rparr>"
  define m1 where "m1 = fst (check_scan_network_complete m0)"
  define m2 where "m2 = fst (check_identify_devices_complete m1)"
  define m3 where "m3 = fst (check_isolate_threats_complete i m2)"
  define m4 where "m4 = fst (check_block_risky_ports_complete b m3)"
  have e: "m1_update_progress ts m = fst (check_final_audit_complete i b m4)"
    unfolding m1_update_progress_def Let_def i_def b_def m0_def m1_def m2_def m3_def m4_def ..
  have "untouched m m0" unfolding m0_def by (rule untouched_tracked)
  also have "untouched m0 m1" unfolding m1_def by (rule untouched_scan)
  also have "untouched m1 m2" unfolding m2_def by (rule untouched_identify)
  also have "untouched m2 m3" unfolding m3_def by (rule untouched_isolate)
  also have "untouched m3 m4" unfolding m4_def by (rule untouched_block)
  also have "untouched m4 (fst (check_final_audit_complete i b m4))" by (rule untouched_audit)
  finally show ?thesis unfolding e .
qed

lemma untouched_update_all: "untouched m (m1_update_all tss m)"
proof (induction tss arbitrary: m)
  case Nil
  show ?case by (simp add: untouched_def)
next
  case (Cons ts tss)
  show ?case
    using untouched_trans [OF untouched_update_progress [of m ts] Cons [of "m1_update_progress ts m"]]
    by simp
qed

lemma all_required_completed_iff:
  "all_required_completed objs \<longleftrightarrow> (\<forall>obj \<in> set objs. required obj \<longrightarrow> completed obj)"
  by (induction objs) auto

lemma truncate_fields [simp]:
  "completed (objective.truncate x) = completed x"
  "required (objective.truncate x) = required x"
  by (simp_all add: objective.truncate_def)

text \<open>
  C4.  Starting from a freshly constructed Mission 1 (whatever the profile and the generated
  network), after every finite sequence of \<open>update_progress\<close> calls with arbitrary
  terminal states the objectives \<open>find_risky_ports\<close> and \<open>analyze_packets\<close> are still
  not completed, and so \<open>is_mission_complete\<close> returns False.
\<close>

theorem update_progress_never_completes:
  "\<not> completed (find_risky_ports (m1_objs (m1_update_all tss (mission1_init p cfg))))
   \<and> \<not> completed (analyze_packets (m1_objs (m1_update_all tss (mission1_init p cfg))))
   \<and> \<not> m1_is_mission_complete (m1_update_all tss (mission1_init p cfg))"
proof -
  define m where "m = m1_update_all tss (mission1_init p cfg)"
  have u: "untouched (mission1_init p cfg) m"
    unfolding m_def by (rule untouched_update_all)
  have f: "find_risky_ports (m1_objs m) = find_risky_ports (m1_objs (mission1_init p cfg))"
    and a: "analyze_packets (m1_objs m) = analyze_packets (m1_objs (mission1_init p cfg))"
    using u by (simp_all add: untouched_def)
  have f0: "\<not> completed (find_risky_ports (m1_objs (mission1_init p cfg)))"
    "required (find_risky_ports (m1_objs (mission1_init p cfg)))"
    "\<not> completed (analyze_packets (m1_objs (mission1_init p cfg)))"
    by (simp_all add: mission1_init_def)
  have f': "\<not> completed (find_risky_ports (m1_objs m))" "required (find_risky_ports (m1_objs m))"
    and a': "\<not> completed (analyze_packets (m1_objs m))"
    using f0 by (simp_all add: f a)
  have "objective.truncate (find_risky_ports (m1_objs m)) \<in> set (m1_items (m1_objs m))"
    by (simp add: m1_items_def)
  then have "\<not> all_required_completed (m1_items (m1_objs m))"
    unfolding all_required_completed_iff using f' truncate_fields by blast
  then have "\<not> m1_is_mission_complete m"
    by (simp add: m1_is_mission_complete_def)
  with f' a' show ?thesis unfolding m_def by blast
qed

theorem update_progress_never_completes_witness:
  "\<not> m1_is_mission_complete
      (m1_update_all
         [\<lparr>commands_history = Some [''scan network''], ts_blocked_ports = Some [23],
           ts_isolated_devices = Some [''00:00:00:00:00:05''], network_scanned = Some True,
           ts_devices_discovered = Some [''a'', ''b'', ''c'', ''d'', ''e'']\<rparr>]
         (mission1_init \<lparr>downloaded_tools = None\<rparr> example_network))"
  using update_progress_never_completes
    [of "[\<lparr>commands_history = Some [''scan network''], ts_blocked_ports = Some [23],
           ts_isolated_devices = Some [''00:00:00:00:00:05''], network_scanned = Some True,
           ts_devices_discovered = Some [''a'', ''b'', ''c'', ''d'', ''e'']\<rparr>]"
        "\<lparr>downloaded_tools = None\<rparr>" example_network]
  by blast

subsection \<open>Objective completion is monotone\<close>

lemma stays_completed_refl: "stays_completed xs xs"
  by (simp add: stays_completed_def list_all2_same)

lemma stays_completed_trans [trans]:
  "stays_completed xs ys \<Longrightarrow> stays_completed ys zs \<Longrightarrow> stays_completed xs zs"
  unfolding stays_completed_def
  by (erule list_all2_trans [rotated], assumption) blast

lemma m1_mono_trans [trans]: "m1_mono a b \<Longrightarrow> m1_mono b c \<Longrightarrow> m1_mono a c"
  unfolding m1_mono_def by (rule stays_completed_trans)

lemma m1_mono_scan: "m1_mono m (fst (check_scan_network_complete m))"
  by (simp add: m1_mono_def stays_completed_def m1_items_def check_scan_network_complete_def)

lemma m1_mono_identify: "m1_mono m (fst (check_identify_devices_complete m))"
  by (simp add: m1_mono_def stays_completed_def m1_items_def
      check_identify_devices_complete_def Let_def)

lemma m1_mono_risky: "m1_mono m (fst (check_find_risky_ports_complete m))"
  by (simp add: m1_mono_def stays_completed_def m1_items_def check_find_risky_ports_complete_def)

lemma m1_mono_isolate: "m1_mono m (fst (check_isolate_threats_complete i m))"
  by (simp add: m1_mono_def stays_completed_def m1_items_def
      check_isolate_threats_complete_def Let_def)

lemma m1_mono_block: "m1_mono m (fst (check_block_risky_ports_complete b m))"
  by (simp add: m1_mono_def stays_completed_def m1_items_def check_block_risky_ports_complete_def)

lemma m1_mono_audit: "m1_mono m (fst (check_final_audit_complete i b m))"
  by (simp add: m1_mono_def stays_completed_def m1_items_def check_final_audit_complete_def
      Let_def)

lemma m1_mono_tracked: "m1_mono m (m\<lparr>commands_used := c, devices_discovered := d\<rparr>)"
  by (simp add: m1_mono_def stays_completed_refl)

lemma m1_mono_update_progress: "m1_mono m (m1_update_progress ts m)"
proof -
  define i where "i = get_or (ts_isolated_devices ts) []"
  define b where "b = get_or (ts_blocked_ports ts) []"
  define m0 where "m0 = m\<lparr>commands_used := get_or (commands_history ts) [],
                 devices_discovered := get_or (ts_devices_discovered ts) []\<rparr>"
  define m1 where "m1 = fst (check_scan_network_complete m0)"
  define m2 where "m2 = fst (check_identify_devices_complete m1)"
  define m3 where "m3 = fst (check_isolate_threats_complete i m2)"
  define m4 where "m4 = fst (check_block_risky_ports_complete b m3)"
  have e: "m1_update_progress ts m = fst (check_final_audit_complete i b m4)"
    unfolding m1_update_progress_def Let_def i_def b_def m0_def m1_def m2_def m3_def m4_def ..
  have "m1_mono m m0" unfolding m0_def by (rule m1_mono_tracked)
  also have "m1_mono m0 m1" unfolding m1_def by (rule m1_mono_scan)
  also have "m1_mono m1 m2" unfolding m2_def by (rule m1_mono_identify)
  also have "m1_mono m2 m3" unfolding m3_def by (rule m1_mono_isolate)
  also have "m1_mono m3 m4" unfolding m4_def by (rule m1_mono_block)
  also have "m1_mono m4 (fst (check_final_audit_complete i b m4))" by (rule m1_mono_audit)
  finally show ?thesis unfolding e .
qed

lemma m1_mono_step: "m1_mono m (m1_step c m)"
  by (cases c)
    (simp_all add: m1_mono_scan m1_mono_identify m1_mono_risky m1_mono_isolate m1_mono_block
      m1_mono_audit m1_mono_update_progress, simp_all add: m1_mono_def stays_completed_refl)

lemma m1_mono_run: "m1_mono m (m1_run cs m)"
proof (induction cs arbitrary: m)
  case Nil
  show ?case by (simp add: m1_mono_def stays_completed_refl)
next
  case (Cons c cs)
  have "m1_mono m (m1_step c m)" by (rule m1_mono_step)
  also have "m1_mono (m1_step c m) (m1_run cs (m1_step c m))" by (rule Cons)
  finally show ?case by simp
qed


lemma m2_mono_trans [trans]: "m2_mono a b \<Longrightarrow> m2_mono b c \<Longrightarrow> m2_mono a c"
  unfolding m2_mono_def by (rule stays_completed_trans)

lemma m2_mono_refl: "m2_mono m m"
  by (simp add: m2_mono_def stays_completed_refl)

lemma m2_mono_profile: "m2_mono m (m\<lparr>m2_profile := p\<rparr>)"
  by (simp add: m2_mono_def stays_completed_refl)

lemma m2_mono_downloaded: "m2_mono m (fst (check_wireshark_downloaded m))"
  by (simp add: m2_mono_def stays_completed_def m2_items_def check_wireshark_downloaded_def)

lemma m2_mono_opened: "m2_mono m (mark_wireshark_opened m)"
  by (simp add: m2_mono_def stays_completed_def m2_items_def check_wireshark_downloaded_def
      mark_wireshark_opened_def)

lemma m2_mono_submit: "m2_mono m (fst (submit_suspicious_ip a m))"
  by (simp add: m2_mono_def stays_completed_def m2_items_def submit_suspicious_ip_def)

lemma m2_mono_report: "m2_mono m (fst (report_threat_found t m))"
  by (simp add: m2_mono_def stays_completed_def m2_items_def report_threat_found_def Let_def)

lemma m2_mono_check_report: "m2_mono m (fst (check_report_complete m))"
  by (simp add: m2_mono_def stays_completed_def m2_items_def check_report_complete_def)

lemma m2_mono_open_flag:
  "m2_mono m (if wireshark_opened m
              then m\<lparr>m2_objs := (m2_objs m)\<lparr>open_wireshark :=
                        (open_wireshark (m2_objs m))\<lparr>completed := True\<rparr>\<rparr>\<rparr>
              else m)"
  by (simp add: m2_mono_def stays_completed_def m2_items_def)

lemma m2_mono_update_progress: "m2_mono m (m2_update_progress m)"
proof -
  define m1 where "m1 = fst (check_wireshark_downloaded m)"
  define m2 where "m2 = (if wireshark_opened m1
                then m1\<lparr>m2_objs := (m2_objs m1)\<lparr>open_wireshark :=
                        (open_wireshark (m2_objs m1))\<lparr>completed := True\<rparr>\<rparr>\<rparr>
                else m1)"
  have e: "m2_update_progress m = fst (check_report_complete m2)"
    unfolding m2_update_progress_def Let_def m1_def m2_def ..
  have "m2_mono m m1" unfolding m1_def by (rule m2_mono_downloaded)
  also have "m2_mono m1 m2" unfolding m2_def by (rule m2_mono_open_flag)
  also have "m2_mono m2 (fst (check_report_complete m2))" by (rule m2_mono_check_report)
  finally show ?thesis unfolding e .
qed

lemma m2_mono_step: "m2_mono m (m2_step c m)"
  by (cases c)
    (simp_all add: m2_mono_downloaded m2_mono_opened m2_mono_submit m2_mono_report
      m2_mono_check_report m2_mono_update_progress m2_mono_refl)

lemma m2_mono_run: "m2_mono m (m2_run cs m)"
proof (induction cs arbitrary: m)
  case Nil
  show ?case by (simp add: m2_mono_refl)
next
  case (Cons pc cs)
  obtain p c where pc: "pc = (p, c)" by (cases pc)
  have "m2_mono m (m\<lparr>m2_profile := p\<rparr>)" by (rule m2_mono_profile)
  also have "m2_mono (m\<lparr>m2_profile := p\<rparr>) (m2_step c (m\<lparr>m2_profile := p\<rparr>))"
    by (rule m2_mono_step)
  also have "m2_mono (m2_step c (m\<lparr>m2_profile := p\<rparr>))
               (m2_run cs (m2_step c (m\<lparr>m2_profile := p\<rparr>)))" by (rule Cons)
  finally show ?case unfolding pc by simp
qed

lemma m3_mono_trans [trans]: "m3_mono a b \<Longrightarrow> m3_mono b c \<Longrightarrow> m3_mono a c"
  unfolding m3_mono_def by (rule stays_completed_trans)

lemma m3_mono_refl: "m3_mono m m"
  by (simp add: m3_mono_def stays_completed_refl)

lemma m3_mono_profile: "m3_mono m (m\<lparr>m3_profile := p\<rparr>)"
  by (simp add: m3_mono_def stays_completed_refl)

lemma m3_mono_downloaded: "m3_mono m (fst (check_pcap_analyzer_downloaded m))"
  by (simp add: m3_mono_def stays_completed_def m3_items_def check_pcap_analyzer_downloaded_def)

lemma m3_mono_opened: "m3_mono m (mark_pcap_analyzer_opened m)"
  by (simp add: m3_mono_def stays_completed_def m3_items_def
      check_pcap_analyzer_downloaded_def mark_pcap_analyzer_opened_def)

lemma m3_mono_step: "m3_mono m (m3_step c m)"
  by (cases c) (simp_all add: m3_mono_downloaded m3_mono_opened m3_mono_refl)

lemma m3_mono_run: "m3_mono m (m3_run cs m)"
proof (induction cs arbitrary: m)
  case Nil
  show ?case by (simp add: m3_mono_refl)
next
  case (Cons pc cs)
  obtain p c where pc: "pc = (p, c)" by (cases pc)
  have "m3_mono m (m\<lparr>m3_profile := p\<rparr>)" by (rule m3_mono_profile)
  also have "m3_mono (m\<lparr>m3_profile := p\<rparr>) (m3_step c (m\<lparr>m3_profile := p\<rparr>))"
    by (rule m3_mono_step)
  also have "m3_mono (m3_step c (m\<lparr>m3_profile := p\<rparr>))
               (m3_run cs (m3_step c (m\<lparr>m3_profile := p\<rparr>)))" by (rule Cons)
  finally show ?case unfolding pc by simp
qed

text \<open>
  C9.  In each of the three mission classes every method leaves completed every objective
  that was completed before the call, and so does every sequence of method calls, whatever
  the shared profile holds at each call.
\<close>

theorem objectives_stay_completed:
  "stays_completed (m1_items (m1_objs m1)) (m1_items (m1_objs (m1_step c1 m1)))
   \<and> stays_completed (m2_items (m2_objs m2)) (m2_items (m2_objs (m2_step c2 m2)))
   \<and> stays_completed (m3_items (m3_objs m3)) (m3_items (m3_objs (m3_step c3 m3)))
   \<and> stays_completed (m1_items (m1_objs m1)) (m1_items (m1_objs (m1_run cs1 m1)))
   \<and> stays_completed (m2_items (m2_objs m2)) (m2_items (m2_objs (m2_run cs2 m2)))
   \<and> stays_completed (m3_items (m3_objs m3)) (m3_items (m3_objs (m3_run cs3 m3)))"
  using m1_mono_step [of m1 c1] m2_mono_step [of m2 c2] m3_mono_step [of m3 c3]
    m1_mono_run [of m1 cs1] m2_mono_run [of m2 cs2] m3_mono_run [of m3 cs3]
  unfolding m1_mono_def m2_mono_def m3_mono_def by blast

theorem objectives_stay_completed_witness:
  "completed (download_wireshark (m2_objs example_mission2))
   \<and> completed (download_wireshark (m2_objs
         (m2_run [(\<lparr>downloaded_tools = None\<rparr>, M2_update_progress),
                  (\<lparr>downloaded_tools = None\<rparr>, M2_check_wireshark_downloaded)]
            example_mission2)))"
proof -
  have a: "completed (download_wireshark (m2_objs example_mission2))"
    by (simp add: example_mission2_def check_wireshark_downloaded_def mission2_init_def
        get_downloaded_tools_def)
  have "stays_completed (m2_items (m2_objs example_mission2))
          (m2_items (m2_objs
             (m2_run [(\<lparr>downloaded_tools = None\<rparr>, M2_update_progress),
                      (\<lparr>downloaded_tools = None\<rparr>, M2_check_wireshark_downloaded)]
                example_mission2)))"
    using objectives_stay_completed
      [of example_mission1 M1_is_mission_complete example_mission2 M2_is_mission_complete
          "mission3_init \<lparr>downloaded_tools = None\<rparr>" M3_is_mission_complete "[]"
          "[(\<lparr>downloaded_tools = None\<rparr>, M2_update_progress),
            (\<lparr>downloaded_tools = None\<rparr>, M2_check_wireshark_downloaded)]" "[]"]
    by blast
  then show ?thesis using a by (simp add: stays_completed_def m2_items_def)
qed

subsection \<open>Completion and percentage\<close>

lemma count_completed_le: "count_completed objs \<le> count_required objs"
  unfolding count_completed_def count_required_def
  by (induction objs) auto

lemma count_required_le: "count_required objs \<le> length objs"
  unfolding count_required_def by simp

lemma all_required_completed_counts:
  "all_required_completed objs \<longleftrightarrow> count_completed objs = count_required objs"
proof (induction objs)
  case Nil
  show ?case by (simp add: count_completed_def count_required_def)
next
  case (Cons obj objs)
  have le: "count_completed objs \<le> count_required objs" by (rule count_completed_le)
  have c: "count_completed (obj # objs) =
      (if required obj \<and> completed obj then Suc (count_completed objs) else count_completed objs)"
    by (simp add: count_completed_def)
  have r: "count_required (obj # objs) =
      (if required obj then Suc (count_required objs) else count_required objs)"
    by (simp add: count_required_def)
  show ?case unfolding c r using Cons le by auto
qed

lemma percentage_cases:
  "\<forall>t \<in> set [1..<9]. \<forall>c \<in> set [0..<Suc t]. returns_100 (percentage_of c t) = (c = t)"
  by code_simp

lemma percentage_small:
  assumes "0 < t" "t \<le> 8" "c \<le> t"
  shows "returns_100 (percentage_of c t) \<longleftrightarrow> c = t"
proof -
  have "t \<in> set [1..<9]" "c \<in> set [0..<Suc t]" using assms by auto
  then show ?thesis using percentage_cases by blast
qed

lemma completion_percentage_eq:
  "0 < count_required objs \<Longrightarrow>
     completion_percentage objs = percentage_of (count_completed objs) (count_required objs)"
  by (simp add: completion_percentage_def percentage_of_def Let_def)

lemma complete_iff_100:
  assumes "length objs \<le> 8" "\<exists>obj \<in> set objs. required obj"
  shows "all_required_completed objs \<longleftrightarrow> returns_100 (completion_percentage objs)"
proof -
  have "filter required objs \<noteq> []" using assms(2) by (simp add: filter_empty_conv)
  then have pos: "0 < count_required objs" by (simp add: count_required_def)
  have le8: "count_required objs \<le> 8" using count_required_le [of objs] assms(1) by simp
  show ?thesis
    unfolding completion_percentage_eq [OF pos] all_required_completed_counts
    using percentage_small [OF pos le8 count_completed_le] by simp
qed

text \<open>
  C10.  For each of the three mission classes and every state of its objectives in which
  some objective is required, \<open>is_mission_complete\<close> returns True exactly when
  \<open>get_completion_percentage\<close> returns a number equal to 100.
\<close>

theorem complete_iff_percentage_100:
  "((\<exists>obj \<in> set (m1_items (m1_objs m1)). required obj) \<longrightarrow>
      (m1_is_mission_complete m1 \<longleftrightarrow> returns_100 (m1_get_completion_percentage m1)))
   \<and> ((\<exists>obj \<in> set (m2_items (m2_objs m2)). required obj) \<longrightarrow>
      (m2_is_mission_complete m2 \<longleftrightarrow> returns_100 (m2_get_completion_percentage m2)))
   \<and> ((\<exists>obj \<in> set (m3_items (m3_objs m3)). required obj) \<longrightarrow>
      (m3_is_mission_complete m3 \<longleftrightarrow> returns_100 (m3_get_completion_percentage m3)))"
proof -
  have l1: "length (m1_items (m1_objs m1)) \<le> 8" by (simp add: m1_items_def)
  have l2: "length (m2_items (m2_objs m2)) \<le> 8" by (simp add: m2_items_def)
  have l3: "length (m3_items (m3_objs m3)) \<le> 8" by (simp add: m3_items_def)
  show ?thesis
    unfolding m1_is_mission_complete_def m2_is_mission_complete_def m3_is_mission_complete_def
      m1_get_completion_percentage_def m2_get_completion_percentage_def
      m3_get_completion_percentage_def
    using complete_iff_100 [OF l1] complete_iff_100 [OF l2] complete_iff_100 [OF l3]
    by blast
qed

theorem complete_iff_percentage_100_witness:
  "m3_is_mission_complete example_mission3_done
   \<and> returns_100 (m3_get_completion_percentage example_mission3_done)
   \<and> \<not> m1_is_mission_complete example_mission1
   \<and> \<not> returns_100 (m1_get_completion_percentage example_mission1)"
proof -
  have r3: "\<exists>obj \<in> set (m3_items (m3_objs example_mission3_done)). required obj"
    by (simp add: example_mission3_done_def m3_items_def)
  have c3: "m3_is_mission_complete example_mission3_done"
    by (simp add: example_mission3_done_def m3_is_mission_complete_def m3_items_def)
  have r1: "\<exists>obj \<in> set (m1_items (m1_objs example_mission1)). required obj"
    by (simp add: example_mission1_def mission1_init_def m1_items_def new_objective_def)
  have c1: "\<not> m1_is_mission_complete example_mission1"
    by (simp add: example_mission1_def mission1_init_def m1_is_mission_complete_def
        m1_items_def new_objective_def)
  show ?thesis
    using complete_iff_percentage_100 [of example_mission1 "mission2_init \<lparr>downloaded_tools = None\<rparr>"
        example_mission3_done] r3 c3 r1 c1
    by blast
qed

end
